theory Spec2Isabelle
  imports Main "HOL-Library.Word" "HOL-Library.Char_ord" "HOL-Library.List_Lexorder"
begin

unbundle bit_operations_syntax

section \<open>Errors\<close>

text \<open>
  Go error values. \<open>Errorf\<close> keeps the format string of a \<open>fmt.Errorf\<close> call and its
  argument instead of the formatted text; \<open>ErrUnrecognizedAddrType\<close> is the package's
  sentinel error, compared by identity in \<open>ServeConn\<close>.
\<close>

datatype error =
    EOF
  | ErrUnrecognizedAddrType
  | AddrError string string
  | parseAddrError string string
  | parsePrefixError string string
  | Errorf0 string
  | Errorf string error
  | ErrorfBytes string "8 word list"
  | OtherError string

section \<open>The library types the server works on: net/netip\<close>

text \<open>
  The server calls Go's standard library for addresses; this section and the next follow
  the library's functions (\<open>netip.ParseAddr\<close>, \<open>netip.ParsePrefix\<close>, \<open>Prefix.Contains\<close>,
  \<open>Addr.Compare\<close>, \<open>net.SplitHostPort\<close>), which are not part of the repository.

  \<open>netip.Addr\<close> is an opaque value type: the zero value (invalid), an IPv4 address, or
  an IPv6 address with an optional zone (the empty string is "no zone"). An IPv4-mapped
  IPv6 address is an IPv6 address.
\<close>

datatype Addr = AddrZero | AddrV4 "32 word" | AddrV6 "128 word" string

fun IsValid :: "Addr \<Rightarrow> bool" where
  "IsValid AddrZero = False"
| "IsValid _ = True"

fun Is4 :: "Addr \<Rightarrow> bool" where
  "Is4 (AddrV4 _) = True"
| "Is4 _ = False"

fun Is6 :: "Addr \<Rightarrow> bool" where
  "Is6 (AddrV6 _ _) = True"
| "Is6 _ = False"

fun BitLen :: "Addr \<Rightarrow> nat" where
  "BitLen AddrZero = 0"
| "BitLen (AddrV4 _) = 32"
| "BitLen (AddrV6 _ _) = 128"

fun Zone :: "Addr \<Rightarrow> string" where
  "Zone (AddrV6 _ z) = z"
| "Zone _ = []"

definition hasZone :: "Addr \<Rightarrow> bool" where
  "hasZone ip = (Zone ip \<noteq> [])"

fun withoutZone :: "Addr \<Rightarrow> Addr" where
  "withoutZone (AddrV6 a z) = AddrV6 a []"
| "withoutZone ip = ip"

text \<open>\<open>Addr.Compare\<close>: addresses sort by bit length, then by address, then (IPv6 only)
  by zone; strings compare bytewise.\<close>

definition Compare :: "Addr \<Rightarrow> Addr \<Rightarrow> int" where
  "Compare ip ip2 =
     (if BitLen ip < BitLen ip2 then - 1
      else if BitLen ip > BitLen ip2 then 1
      else case (ip, ip2) of
             (AddrV4 a, AddrV4 b) \<Rightarrow> (if a < b then - 1 else if a > b then 1 else 0)
           | (AddrV6 a za, AddrV6 b zb) \<Rightarrow>
               (if a < b then - 1 else if a > b then 1
                else if za < zb then - 1 else if za > zb then 1 else 0)
           | _ \<Rightarrow> 0)"

definition AddrFrom4 :: "8 word list \<Rightarrow> Addr" where
  "AddrFrom4 bs = AddrV4 (foldl (\<lambda>acc b. push_bit 8 acc OR ucast b) 0 bs)"

definition AddrFrom16 :: "8 word list \<Rightarrow> Addr" where
  "AddrFrom16 bs = AddrV6 (foldl (\<lambda>acc b. push_bit 8 acc OR ucast b) 0 bs) []"

fun WithZone :: "Addr \<Rightarrow> string \<Rightarrow> Addr" where
  "WithZone (AddrV6 a _) zone = AddrV6 a zone"
| "WithZone ip zone = ip"

subsection \<open>ParseAddr\<close>

definition isDigit :: "char \<Rightarrow> bool" where
  "isDigit c = (CHR ''0'' \<le> c \<and> c \<le> CHR ''9'')"

definition digitVal :: "char \<Rightarrow> nat" where
  "digitVal c = of_char c - of_char CHR ''0''"

text \<open>
  \<open>parseIPv4Fields\<close>: the loop over the characters, with the value and digit count of the
  current octet, the octets finished so far (their number is the loop's \<open>pos\<close>) and the
  previous character (\<open>None\<close> at index 0).
\<close>

fun parseIPv4Fields_loop ::
  "string \<Rightarrow> nat \<Rightarrow> nat \<Rightarrow> 8 word list \<Rightarrow> char option \<Rightarrow> string \<Rightarrow> error + 8 word list" where
  "parseIPv4Fields_loop inp val digLen fields prev [] =
     (if length fields < 3 then Inl (parseAddrError inp ''IPv4 address too short'')
      else Inr (fields @ [of_nat val]))"
| "parseIPv4Fields_loop inp val digLen fields prev (c # cs) =
     (if isDigit c then
        (if digLen = 1 \<and> val = 0
         then Inl (parseAddrError inp ''IPv4 field has octet with leading zero'')
         else (let val' = val * 10 + digitVal c in
               if val' > 255 then Inl (parseAddrError inp ''IPv4 field has value >255'')
               else parseIPv4Fields_loop inp val' (digLen + 1) fields (Some c) cs))
      else if c = CHR ''.'' then
        (if prev = None \<or> cs = [] \<or> prev = Some CHR ''.''
         then Inl (parseAddrError inp ''IPv4 field must have at least one digit'')
         else if length fields = 3 then Inl (parseAddrError inp ''IPv4 address too long'')
         else parseIPv4Fields_loop inp 0 0 (fields @ [of_nat val]) (Some c) cs)
      else Inl (parseAddrError inp ''unexpected character''))"

definition parseIPv4Fields :: "string \<Rightarrow> string \<Rightarrow> error + 8 word list" where
  "parseIPv4Fields inp s = parseIPv4Fields_loop inp 0 0 [] None s"

definition parseIPv4 :: "string \<Rightarrow> Addr \<times> error option" where
  "parseIPv4 s =
     (case parseIPv4Fields s s of
        Inl err \<Rightarrow> (AddrZero, Some err)
      | Inr fields \<Rightarrow> (AddrFrom4 fields, None))"

definition hexVal :: "char \<Rightarrow> nat option" where
  "hexVal c =
     (if CHR ''0'' \<le> c \<and> c \<le> CHR ''9'' then Some (of_char c - of_char CHR ''0'')
      else if CHR ''a'' \<le> c \<and> c \<le> CHR ''f'' then Some (of_char c - of_char CHR ''a'' + 10)
      else if CHR ''A'' \<le> c \<and> c \<le> CHR ''F'' then Some (of_char c - of_char CHR ''A'' + 10)
      else None)"

text \<open>The inner loop of \<open>parseIPv6\<close>: one group of hex digits. Returns the number of
  digits, the value and the rest of the string.\<close>

fun hexGroup :: "string \<Rightarrow> nat \<Rightarrow> nat \<Rightarrow> string \<Rightarrow> error + (nat \<times> nat \<times> string)" where
  "hexGroup inp off acc [] = Inr (off, acc, [])"
| "hexGroup inp off acc (c # cs) =
     (case hexVal c of
        None \<Rightarrow> Inr (off, acc, c # cs)
      | Some d \<Rightarrow>
          (let acc' = acc * 16 + d in
           if off > 3 then Inl (parseAddrError inp ''each group must have 4 or less digits'')
           else if acc' > 65535 then Inl (parseAddrError inp ''IPv6 field has value >=2^16'')
           else hexGroup inp (off + 1) acc' cs))"

text \<open>
  One iteration of the outer loop of \<open>parseIPv6\<close>. \<open>ip\<close> holds the bytes written so far
  (its length is the loop's \<open>i\<close>), \<open>ellipsis\<close> the position of \<open>::\<close> if one was seen,
  \<open>s\<close> the unread rest of the string. The result is an error, or whether the loop goes on
  (\<open>False\<close> is Go's \<open>break\<close>) and the new values of the three variables.
\<close>

definition parseIPv6_body ::
  "string \<Rightarrow> 8 word list \<Rightarrow> nat option \<Rightarrow> string
     \<Rightarrow> error + (bool \<times> 8 word list \<times> nat option \<times> string)" where
  "parseIPv6_body inp ip ellipsis s =
     (case hexGroup inp 0 0 s of
        Inl err \<Rightarrow> Inl err
      | Inr (off, acc, rest) \<Rightarrow>
          if off = 0
          then Inl (parseAddrError inp ''each colon-separated field must have at least one digit'')
          else if rest \<noteq> [] \<and> hd rest = CHR ''.'' then
            (if ellipsis = None \<and> length ip \<noteq> 12
             then Inl (parseAddrError inp
                    ''embedded IPv4 address must replace the final 2 fields of the address'')
             else if length ip + 4 > 16
             then Inl (parseAddrError inp
                    ''too many hex fields to fit an embedded IPv4 at the end of the address'')
             else case parseIPv4Fields inp s of
                    Inl err \<Rightarrow> Inl err
                  | Inr fields \<Rightarrow> Inr (False, ip @ fields, ellipsis, []))
          else
            (let ip' = ip @ [of_nat (acc div 256), of_nat (acc mod 256)] in
             case rest of
               [] \<Rightarrow> Inr (False, ip', ellipsis, [])
             | c # s1 \<Rightarrow>
                 if c \<noteq> CHR '':''
                 then Inl (parseAddrError inp ''unexpected character, want colon'')
                 else (case s1 of
                     [] \<Rightarrow> Inl (parseAddrError inp ''colon must be followed by more characters'')
                   | c1 # s2 \<Rightarrow>
                       if c1 = CHR '':'' then
                         (if ellipsis \<noteq> None
                          then Inl (parseAddrError inp ''multiple :: in address'')
                          else if s2 = [] then Inr (False, ip', Some (length ip'), [])
                          else Inr (True, ip', Some (length ip'), s2))
                       else Inr (True, ip', ellipsis, s1))))"

function parseIPv6_loop ::
  "string \<Rightarrow> 8 word list \<Rightarrow> nat option \<Rightarrow> string
     \<Rightarrow> error + (8 word list \<times> nat option \<times> string)" where
  "parseIPv6_loop inp ip ellipsis s =
     (if \<not> length ip < 16 then Inr (ip, ellipsis, s)
      else case parseIPv6_body inp ip ellipsis s of
        Inl err \<Rightarrow> Inl err
      | Inr (continue, ip', ellipsis', s') \<Rightarrow>
          if continue then parseIPv6_loop inp ip' ellipsis' s'
          else Inr (ip', ellipsis', s'))"
  by pat_completeness auto
termination
proof (relation "measure (\<lambda>(inp, ip, ellipsis, s). 16 - length ip)")
  show "wf (measure (\<lambda>(inp, ip, ellipsis, s). 16 - length ip))"
    by simp
next
  fix inp :: string and ip ip' :: "8 word list" and ellipsis ell' :: "nat option"
    and s s' :: string and x2 y z continue
  assume lt: "\<not> \<not> length ip < 16"
    and body: "parseIPv6_body inp ip ellipsis s = Inr x2"
    and x2: "(continue, y) = x2" and y: "(ip', z) = y" and z: "(ell', s') = z"
    and c: "continue"
  from body x2 y z c have "parseIPv6_body inp ip ellipsis s = Inr (True, ip', ell', s')"
    by auto
  then have "length ip' = length ip + 2"
    by (auto simp: parseIPv6_body_def Let_def split: sum.splits prod.splits if_splits list.splits)
  with lt show "((inp, ip', ell', s'), (inp, ip, ellipsis, s))
      \<in> measure (\<lambda>(inp, ip, ellipsis, s). 16 - length ip)"
    by simp
qed

declare parseIPv6_loop.simps [simp del]

definition parseIPv6 :: "string \<Rightarrow> Addr \<times> error option" where
  "parseIPv6 inp =
     (let s0 = takeWhile (\<lambda>c. c \<noteq> CHR ''%'') inp;
          hasPct = (CHR ''%'' \<in> set inp);
          zone = (if hasPct then tl (dropWhile (\<lambda>c. c \<noteq> CHR ''%'') inp) else [])
      in if hasPct \<and> zone = []
         then (AddrZero, Some (parseAddrError inp ''zone must be a non-empty string''))
         else
           (let lead = (length s0 \<ge> 2 \<and> s0 ! 0 = CHR '':'' \<and> s0 ! 1 = CHR '':'');
                ellipsis = (if lead then Some 0 else None);
                s = (if lead then drop 2 s0 else s0)
            in if lead \<and> s = [] then (AddrV6 0 zone, None)
               else case parseIPv6_loop inp [] ellipsis s of
                 Inl err \<Rightarrow> (AddrZero, Some err)
               | Inr (ip, ell, rest) \<Rightarrow>
                   if rest \<noteq> []
                   then (AddrZero, Some (parseAddrError inp ''trailing garbage after address''))
                   else if length ip < 16 then
                     (case ell of
                        None \<Rightarrow> (AddrZero, Some (parseAddrError inp ''address string too short''))
                      | Some e \<Rightarrow>
                          (WithZone
                             (AddrFrom16 (take e ip @ replicate (16 - length ip) 0 @ drop e ip))
                             zone, None))
                   else if ell \<noteq> None
                   then (AddrZero, Some (parseAddrError inp
                           ''the :: must expand to at least one field of zeros''))
                   else (WithZone (AddrFrom16 ip) zone, None)))"

fun ParseAddr_scan :: "string \<Rightarrow> string \<Rightarrow> Addr \<times> error option" where
  "ParseAddr_scan s [] = (AddrZero, Some (parseAddrError s ''unable to parse IP''))"
| "ParseAddr_scan s (c # cs) =
     (if c = CHR ''.'' then parseIPv4 s
      else if c = CHR '':'' then parseIPv6 s
      else if c = CHR ''%'' then (AddrZero, Some (parseAddrError s ''missing IPv6 address''))
      else ParseAddr_scan s cs)"

definition ParseAddr :: "string \<Rightarrow> Addr \<times> error option" where
  "ParseAddr s = ParseAddr_scan s s"

subsection \<open>Prefixes\<close>

record Prefix =
  pfx_ip :: Addr
  bitsPlusOne :: nat

definition PrefixFrom :: "Addr \<Rightarrow> int \<Rightarrow> Prefix" where
  "PrefixFrom ip bits =
     \<lparr>pfx_ip = withoutZone ip,
      bitsPlusOne = (if ip \<noteq> AddrZero \<and> bits \<ge> 0 \<and> bits \<le> int (BitLen ip)
                     then nat bits + 1 else 0)\<rparr>"

definition Prefix_IsValid :: "Prefix \<Rightarrow> bool" where
  "Prefix_IsValid p = (bitsPlusOne p > 0)"

definition Bits :: "Prefix \<Rightarrow> int" where
  "Bits p = int (bitsPlusOne p) - 1"

text \<open>
  \<open>Prefix.Contains\<close>: false for an invalid prefix, an address with a zone, the zero
  address or an address of the other family; otherwise the leading \<open>Bits p\<close> bits of
  the two addresses are compared.
\<close>

definition Contains :: "Prefix \<Rightarrow> Addr \<Rightarrow> bool" where
  "Contains p ip =
     (if \<not> Prefix_IsValid p \<or> hasZone ip then False
      else if BitLen (pfx_ip p) = 0 \<or> BitLen ip = 0 \<or> BitLen (pfx_ip p) \<noteq> BitLen ip then False
      else case (ip, pfx_ip p) of
             (AddrV4 a, AddrV4 b) \<Rightarrow> drop_bit (32 - nat (Bits p)) (a XOR b) = 0
           | (AddrV6 a _, AddrV6 b _) \<Rightarrow> (a XOR b) AND push_bit (128 - nat (Bits p)) (- 1) = 0
           | _ \<Rightarrow> False)"

fun LastIndexByteString :: "string \<Rightarrow> char \<Rightarrow> int" where
  "LastIndexByteString [] c = - 1"
| "LastIndexByteString (x # xs) c =
     (if LastIndexByteString xs c \<ge> 0 then LastIndexByteString xs c + 1
      else if x = c then 0 else - 1)"

fun IndexByteString :: "string \<Rightarrow> char \<Rightarrow> int" where
  "IndexByteString [] c = - 1"
| "IndexByteString (x # xs) c =
     (if x = c then 0
      else if IndexByteString xs c < 0 then - 1 else IndexByteString xs c + 1)"

text \<open>\<open>strconv.Atoi\<close>: an optional sign and decimal digits, within 64 bits.\<close>

fun digitsVal :: "nat \<Rightarrow> string \<Rightarrow> nat option" where
  "digitsVal acc [] = Some acc"
| "digitsVal acc (c # cs) = (if isDigit c then digitsVal (acc * 10 + digitVal c) cs else None)"

definition Atoi :: "string \<Rightarrow> error + int" where
  "Atoi s =
     (let neg = (take 1 s = ''-'');
          ds = (if take 1 s = ''-'' \<or> take 1 s = ''+'' then drop 1 s else s)
      in if ds = [] then Inl (OtherError ''strconv.Atoi: invalid syntax'')
         else case digitsVal 0 ds of
                None \<Rightarrow> Inl (OtherError ''strconv.Atoi: invalid syntax'')
              | Some n \<Rightarrow>
                  if (\<not> neg \<and> int n > 9223372036854775807)
                     \<or> (neg \<and> int n > 9223372036854775808)
                  then Inl (OtherError ''strconv.Atoi: value out of range'')
                  else Inr (if neg then - int n else int n))"

definition ParsePrefix :: "string \<Rightarrow> error + Prefix" where
  "ParsePrefix s =
     (let i = LastIndexByteString s CHR ''/'' in
      if i < 0 then Inl (parsePrefixError s ''no '/' '')
      else case ParseAddr (take (nat i) s) of
        (ip, Some err) \<Rightarrow> Inl (parsePrefixError s ''bad address'')
      | (ip, None) \<Rightarrow>
          if Is6 ip \<and> Zone ip \<noteq> []
          then Inl (parsePrefixError s ''IPv6 zones cannot be present in a prefix'')
          else
            (let bitsStr = drop (nat i + 1) s in
             if length bitsStr > 1 \<and> (hd bitsStr < CHR ''1'' \<or> hd bitsStr > CHR ''9'')
             then Inl (parsePrefixError s ''bad bits after slash'')
             else case Atoi bitsStr of
                    Inl err \<Rightarrow> Inl (parsePrefixError s ''bad bits after slash'')
                  | Inr bits \<Rightarrow>
                      if bits < 0 \<or> bits > (if Is6 ip then 128 else 32)
                      then Inl (parsePrefixError s ''prefix length out of range'')
                      else Inr (PrefixFrom ip bits)))"

text \<open>\<open>MustParsePrefix\<close> panics where \<open>ParsePrefix\<close> fails: \<open>None\<close> is the panic.\<close>

definition MustParsePrefix :: "string \<Rightarrow> Prefix option" where
  "MustParsePrefix s = (case ParsePrefix s of Inl err \<Rightarrow> None | Inr p \<Rightarrow> Some p)"

section \<open>The library functions of package net\<close>

text \<open>
  \<open>net.SplitHostPort\<close>: the port starts after the last colon; a host in brackets ends at
  the first \<open>]\<close>, which must come just before that colon; a host without brackets holds
  no colon; no other bracket may occur.
\<close>

definition SplitHostPort :: "string \<Rightarrow> error + (string \<times> string)" where
  "SplitHostPort hostport =
     (let i = LastIndexByteString hostport CHR '':'' in
      if i < 0 then Inl (AddrError ''missing port in address'' hostport)
      else
        (let bracket = (take 1 hostport = ''['');
             end = IndexByteString hostport CHR '']'';
             host = (if bracket then take (nat end - 1) (drop 1 hostport)
                     else take (nat i) hostport);
             j = (if bracket then 1 else 0);
             k = (if bracket then nat end + 1 else 0)
         in
         if bracket \<and> end < 0 then Inl (AddrError ''missing ']' in address'' hostport)
         else if bracket \<and> end + 1 = int (length hostport)
         then Inl (AddrError ''missing port in address'' hostport)
         else if bracket \<and> end + 1 \<noteq> i then
           (if hostport ! nat (end + 1) = CHR '':''
            then Inl (AddrError ''too many colons in address'' hostport)
            else Inl (AddrError ''missing port in address'' hostport))
         else if \<not> bracket \<and> IndexByteString host CHR '':'' \<ge> 0
         then Inl (AddrError ''too many colons in address'' hostport)
         else if IndexByteString (drop j hostport) CHR ''['' \<ge> 0
         then Inl (AddrError ''unexpected '[' in address'' hostport)
         else if IndexByteString (drop k hostport) CHR '']'' \<ge> 0
         then Inl (AddrError ''unexpected ']' in address'' hostport)
         else Inr (host, drop (nat i + 1) hostport)))"

section \<open>The server\<close>

subsection \<open>Types of the package\<close>

text \<open>
  The interfaces \<open>Authenticator\<close>, \<open>CredentialStore\<close>, \<open>NameResolver\<close>, \<open>RuleSet\<close> and
  \<open>AddressRewriter\<close> are declared in files that are not part of the sources at hand. An
  interface value is one of the implementations the sources create (\<open>NoAuthAuthenticator\<close>,
  \<open>UserPassAuthenticator\<close>, \<open>StaticCredentials\<close>, \<open>DNSResolver\<close>, \<open>PermitAll\<close>,
  \<open>PermitDestAddrPattern\<close>, the standard logger) or another implementation, known by a
  name; \<open>None\<close> is the nil interface.
\<close>

datatype CredentialStore = StaticCredentials "(string \<times> string) list" | OtherCredentialStore string

datatype Authenticator =
    NoAuthAuthenticator
  | UserPassAuthenticator CredentialStore
  | OtherAuthenticator "8 word" string

datatype NameResolver = DNSResolver | OtherResolver string

datatype RuleSet = PermitAll | PermitDestAddrPattern string | OtherRuleSet string

datatype AddressRewriter = OtherRewriter string

datatype Logger = StandardLogger | OtherLogger string

datatype DialFunc = DialFunc string

record Config =
  AuthMethods :: "Authenticator list"
  Credentials :: "CredentialStore option"
  Resolver :: "NameResolver option"
  Rules :: "RuleSet option"
  Rewriter :: "AddressRewriter option"
  BindIP :: Addr
  Logger :: "Logger option"
  Dial :: "DialFunc option"

record Server =
  config :: Config
  authMethods :: "8 word \<rightharpoonup> Authenticator"
  isIPAllowed :: "Addr \<Rightarrow> bool"

definition socks5Version :: "8 word" where
  "socks5Version = 5"

subsection \<open>New\<close>

text \<open>
  \<open>New\<close> fills the defaults of the configuration in, registers every authenticator under
  its method code and sets the default allow-list predicate, which blocks every address.
  The method \<open>GetCode\<close> of the authenticators belongs to the absent file and is a
  parameter. \<open>New\<close> returns the server and a nil error.
\<close>

definition New :: "(Authenticator \<Rightarrow> 8 word) \<Rightarrow> Config \<Rightarrow> Server \<times> error option" where
  "New GetCode conf =
     (let conf1 =
            (if length (AuthMethods conf) = 0 then
               (case Credentials conf of
                  Some creds \<Rightarrow> conf\<lparr>AuthMethods := [UserPassAuthenticator creds]\<rparr>
                | None \<Rightarrow> conf\<lparr>AuthMethods := [NoAuthAuthenticator]\<rparr>)
             else conf);
          conf2 = (if Resolver conf1 = None then conf1\<lparr>Resolver := Some DNSResolver\<rparr> else conf1);
          conf3 = (if Rules conf2 = None then conf2\<lparr>Rules := Some PermitAll\<rparr> else conf2);
          conf4 = (if Logger conf3 = None then conf3\<lparr>Logger := Some StandardLogger\<rparr> else conf3)
      in (\<lparr>config = conf4,
           authMethods = foldl (\<lambda>m a. m(GetCode a \<mapsto> a)) Map.empty (AuthMethods conf4),
           isIPAllowed = (\<lambda>ip. False)\<rparr>, None))"

text \<open>The method codes of RFC 1928, for the two authenticators \<open>New\<close> creates itself:
  0 is "no authentication required", 2 is "username/password".\<close>

fun GetCode_rfc1928 :: "Authenticator \<Rightarrow> 8 word" where
  "GetCode_rfc1928 NoAuthAuthenticator = 0"
| "GetCode_rfc1928 (UserPassAuthenticator _) = 2"
| "GetCode_rfc1928 (OtherAuthenticator code _) = code"

subsection \<open>SetIPWhitelist\<close>

text \<open>The closure \<open>SetIPWhitelist\<close> installs: a linear scan with \<open>Compare\<close>.\<close>

fun whitelisted :: "Addr list \<Rightarrow> Addr \<Rightarrow> bool" where
  "whitelisted [] ip = False"
| "whitelisted (allowedIP # allowedIPs) ip =
     (if Compare ip allowedIP = 0 then True else whitelisted allowedIPs ip)"

definition SetIPWhitelist :: "Server \<Rightarrow> Addr list \<Rightarrow> Server" where
  "SetIPWhitelist s allowedIPs = s\<lparr>isIPAllowed := whitelisted allowedIPs\<rparr>"

subsection \<open>IsDockerNetwork and IsTailScale\<close>

text \<open>The two prefixes, \<open>MustParsePrefix("172.16.0.0/12")\<close> and
  \<open>MustParsePrefix("100.64.0.0/10")\<close>, as the values the literals parse to.\<close>

definition classBCIDR :: Prefix where
  "classBCIDR = PrefixFrom (AddrFrom4 [172, 16, 0, 0]) 12"

definition cgnatCIDR :: Prefix where
  "cgnatCIDR = PrefixFrom (AddrFrom4 [100, 64, 0, 0]) 10"

definition IsDockerNetwork :: "Addr \<Rightarrow> bool" where
  "IsDockerNetwork ip =
     (if \<not> IsValid ip \<or> \<not> Is4 ip then False else Contains classBCIDR ip)"

definition IsTailScale :: "Addr \<Rightarrow> bool" where
  "IsTailScale ip =
     (if \<not> IsValid ip \<or> \<not> Is4 ip then False else Contains cgnatCIDR ip)"

subsection \<open>Connections\<close>

text \<open>
  A \<open>net.Addr\<close> is known to \<open>ServeConn\<close> by what its method \<open>String\<close> returns and by the
  type assertion to \<open>*net.TCPAddr\<close>, whose \<open>IP\<close> is a byte slice.
\<close>

datatype TCPAddr = TCPAddr (tcpIP: "8 word list") (tcpPort: int) (tcpZone: string)

record net_Addr =
  addrString :: string
  addrTCP :: "TCPAddr option"

text \<open>What a run of \<open>ServeConn\<close> does to the outside, in order: lines given to the logger
  (format string and argument), bytes taken from the connection, bytes written to it, and
  its closing.\<close>

datatype Event =
    LogInfof string string
  | LogWarnf string string
  | LogErrorf string error
  | ConnRead "8 word list"
  | ConnWrite "8 word list"
  | ConnClose

text \<open>
  The connection as state: the peer address, the bytes the client sends that the handler
  has not yet taken from its buffered reader, the error a write would meet (\<open>None\<close> on a
  healthy transport), and the events so far.
\<close>

record Conn =
  conn_RemoteAddr :: net_Addr
  unread :: "8 word list"
  writeErr :: "error option"
  trace :: "Event list"

definition logEvent :: "Event \<Rightarrow> Conn \<Rightarrow> Conn" where
  "logEvent e conn = conn\<lparr>trace := trace conn @ [e]\<rparr>"

definition conn_Close :: "Conn \<Rightarrow> Conn" where
  "conn_Close conn = conn\<lparr>trace := trace conn @ [ConnClose]\<rparr>"

definition conn_Write :: "8 word list \<Rightarrow> Conn \<Rightarrow> error option \<times> Conn" where
  "conn_Write bs conn =
     (case writeErr conn of
        Some err \<Rightarrow> (Some err, conn)
      | None \<Rightarrow> (None, conn\<lparr>trace := trace conn @ [ConnWrite bs]\<rparr>))"

text \<open>Reading \<open>n\<close> bytes through the buffered reader: all of them, or the error of a
  stream that ends early (what was left is consumed).\<close>

definition bufConn_Read :: "nat \<Rightarrow> Conn \<Rightarrow> (error + 8 word list) \<times> Conn" where
  "bufConn_Read n conn =
     (if length (unread conn) < n
      then (Inl EOF,
            if unread conn = [] then conn
            else conn\<lparr>unread := [], trace := trace conn @ [ConnRead (unread conn)]\<rparr>)
      else (Inr (take n (unread conn)),
            conn\<lparr>unread := drop n (unread conn),
                 trace := trace conn @ [ConnRead (take n (unread conn))]\<rparr>))"

subsection \<open>Requests\<close>

text \<open>
  Modelled from the spec: the types \<open>AuthContext\<close>, \<open>AddrSpec\<close> and \<open>Request\<close>, declared in
  files that are not part of the sources at hand. \<open>ServeConn\<close> uses the fields \<open>IP\<close> and
  \<open>Port\<close> of an \<open>AddrSpec\<close> and the fields \<open>AuthContext\<close> and \<open>RemoteAddr\<close> of a
  \<open>Request\<close>; the others follow the data model of the specification (method and payload
  of an authentication; domain name, address and port; command and destination).
\<close>

record AuthContext =
  Method :: "8 word"
  Payload :: "(string \<times> string) list"

record AddrSpec =
  FQDN :: string
  IP :: Addr
  Port :: int

record Request =
  Command :: "8 word"
  AuthContext :: "AuthContext option"
  RemoteAddr :: "AddrSpec option"
  DestAddr :: AddrSpec

text \<open>
  The functions of the package that \<open>ServeConn\<close> calls and that are not part of the
  sources at hand, with the reply code \<open>addrTypeNotSupported\<close>. Each works on the
  connection and returns it with its result.
\<close>

record Pkg =
  authenticate :: "Server \<Rightarrow> Conn \<Rightarrow> (error + AuthContext) \<times> Conn"
  NewRequest :: "Conn \<Rightarrow> (error + Request) \<times> Conn"
  sendReply :: "Conn \<Rightarrow> 8 word \<Rightarrow> AddrSpec option \<Rightarrow> error option \<times> Conn"
  handleRequest :: "Server \<Rightarrow> Request \<Rightarrow> Conn \<Rightarrow> error option \<times> Conn"
  addrTypeNotSupported :: "8 word"

subsection \<open>ServeConn\<close>

text \<open>
  The admission gate (\<open>ServeConn\<close>, from "Check client IP against whitelist" to the end of
  the \<open>if\<close> chain): \<open>None\<close> admits.
\<close>

definition ServeConn_gate :: "Server \<Rightarrow> Conn \<Rightarrow> error option \<times> Conn" where
  "ServeConn_gate s conn =
     (case SplitHostPort (addrString (conn_RemoteAddr conn)) of
        Inl err \<Rightarrow>
          (Some err, logEvent (LogErrorf ''failed to get client IP address: %v'' err) conn)
      | Inr (clientIP, port) \<Rightarrow>
          (let ip = fst (ParseAddr clientIP) in
           if IsDockerNetwork ip
           then (None, logEvent (LogInfof ''connection from Docker IP address: %s'' clientIP) conn)
           else if IsTailScale ip
           then (None, logEvent (LogInfof ''connection from Tailscale IP address: %s'' clientIP) conn)
           else if isIPAllowed s ip
           then (None, logEvent (LogInfof ''connection from allowed address: %s'' clientIP) conn)
           else (Some (Errorf0 ''connection from not allowed IP address''),
                 logEvent (LogWarnf ''connection from not allowed IP address: %s'' clientIP) conn)))"

text \<open>The version byte (\<open>ServeConn\<close>, "Read the version byte" and "Ensure we are
  compatible").\<close>

definition ServeConn_version :: "Conn \<Rightarrow> error option \<times> Conn" where
  "ServeConn_version conn =
     (case bufConn_Read 1 conn of
        (Inl err, conn1) \<Rightarrow>
          (Some err, logEvent (LogErrorf ''failed to get version byte: %v'' err) conn1)
      | (Inr version, conn1) \<Rightarrow>
          if version ! 0 \<noteq> socks5Version
          then (let err = ErrorfBytes ''unsupported SOCKS version: %v'' version
                in (Some err, logEvent (LogErrorf ''socks: %v'' err) conn1))
          else (None, conn1))"

text \<open>The stamping of the request (\<open>ServeConn\<close>, the assignments to
  \<open>request.AuthContext\<close> and \<open>request.RemoteAddr\<close>). \<open>string(client.IP)\<close> is the string
  made of the bytes of the slice.\<close>

definition stampRequest :: "AuthContext \<Rightarrow> net_Addr \<Rightarrow> Request \<Rightarrow> Request" where
  "stampRequest authContext remote request =
     (let request1 = request\<lparr>AuthContext := Some authContext\<rparr> in
      case addrTCP remote of
        Some client \<Rightarrow>
          (let addr = fst (ParseAddr (map (\<lambda>b. char_of (unat b)) (tcpIP client)))
           in request1\<lparr>RemoteAddr := Some \<lparr>FQDN = [], IP = addr, Port = tcpPort client\<rparr>\<rparr>)
      | None \<Rightarrow> request1)"

text \<open>Authentication, request and command (\<open>ServeConn\<close>, from "Authenticate the
  connection" to the end).\<close>

definition ServeConn_request :: "Pkg \<Rightarrow> Server \<Rightarrow> Conn \<Rightarrow> error option \<times> Conn" where
  "ServeConn_request pkg s conn =
     (case authenticate pkg s conn of
        (Inl err, conn1) \<Rightarrow>
          (let err' = Errorf ''failed to authenticate: %v'' err
           in (Some err', logEvent (LogErrorf ''socks: %v'' err') conn1))
      | (Inr authContext, conn1) \<Rightarrow>
          (case NewRequest pkg conn1 of
             (Inl err, conn2) \<Rightarrow>
               if err = ErrUnrecognizedAddrType then
                 (case sendReply pkg conn2 (addrTypeNotSupported pkg) None of
                    (Some err2, conn3) \<Rightarrow> (Some (Errorf ''failed to send reply: %v'' err2), conn3)
                  | (None, conn3) \<Rightarrow>
                      (Some (Errorf ''failed to read destination address: %v'' err), conn3))
               else (Some (Errorf ''failed to read destination address: %v'' err), conn2)
           | (Inr request, conn2) \<Rightarrow>
               (case handleRequest pkg s
                       (stampRequest authContext (conn_RemoteAddr conn2) request) conn2 of
                  (Some err, conn3) \<Rightarrow>
                    (let err' = Errorf ''failed to handle request: %v'' err
                     in (Some err', logEvent (LogErrorf ''socks: %v'' err') conn3))
                | (None, conn3) \<Rightarrow> (None, conn3))))"

text \<open>\<open>ServeConn\<close>: the three parts in order; the deferred \<open>conn.Close()\<close> runs on every
  return.\<close>

definition ServeConn :: "Pkg \<Rightarrow> Server \<Rightarrow> Conn \<Rightarrow> error option \<times> Conn" where
  "ServeConn pkg s conn =
     (case ServeConn_gate s conn of
        (Some err, conn1) \<Rightarrow> (Some err, conn_Close conn1)
      | (None, conn1) \<Rightarrow>
          (case ServeConn_version conn1 of
             (Some err, conn2) \<Rightarrow> (Some err, conn_Close conn2)
           | (None, conn2) \<Rightarrow>
               (case ServeConn_request pkg s conn2 of
                  (res, conn3) \<Rightarrow> (res, conn_Close conn3))))"

subsection \<open>The program's start\<close>

text \<open>The parameters \<open>main\<close> reads from the environment (\<open>ProxyPort\<close> is the field
  \<open>Port\<close>), and the server it builds before it listens.\<close>

record params =
  User :: string
  Password :: string
  ProxyPort :: string
  AllowedDestFqdn :: string
  AllowedIPs :: "string list"

text \<open>The zero value \<open>socks5.Config{}\<close>.\<close>

definition zeroConfig :: Config where
  "zeroConfig = \<lparr>AuthMethods = [], Credentials = None, Resolver = None, Rules = None,
                  Rewriter = None, BindIP = AddrZero, Logger = None, Dial = None\<rparr>"

definition main_server :: "(Authenticator \<Rightarrow> 8 word) \<Rightarrow> params \<Rightarrow> error + Server" where
  "main_server GetCode cfg =
     (let socks5conf = zeroConfig;
          socks5conf1 =
            (if User cfg @ Password cfg \<noteq> []
             then socks5conf\<lparr>AuthMethods :=
                    [UserPassAuthenticator (StaticCredentials [(User cfg, Password cfg)])]\<rparr>
             else socks5conf);
          socks5conf2 =
            (if AllowedDestFqdn cfg \<noteq> []
             then socks5conf1\<lparr>Rules := Some (PermitDestAddrPattern (AllowedDestFqdn cfg))\<rparr>
             else socks5conf1)
      in case New GetCode socks5conf2 of
           (server, Some err) \<Rightarrow> Inl err
         | (server, None) \<Rightarrow>
             if length (AllowedIPs cfg) > 0
             then Inr (SetIPWhitelist server (map (\<lambda>ip. fst (ParseAddr ip)) (AllowedIPs cfg)))
             else Inr server)"

subsection \<open>Request decoding and reply encoding\<close>

text \<open>
  Modelled from the spec: \<open>NewRequest\<close> (with its helper \<open>readAddrSpec\<close>), which is not
  part of the sources at hand. The request is \<open>VER = 5, CMD, RSV, ATYP, DST.ADDR, DST.PORT\<close>;
  the address type selects IPv4 (1: 4 bytes), a domain name (3: a length byte and that
  many bytes) or IPv6 (4: 16 bytes), each followed by a 2-byte big-endian port; any other
  address type is the error \<open>ErrUnrecognizedAddrType\<close>.
\<close>

definition readPort_spec :: "string \<Rightarrow> Addr \<Rightarrow> Conn \<Rightarrow> (error + AddrSpec) \<times> Conn" where
  "readPort_spec fqdn addr conn =
     (case bufConn_Read 2 conn of
        (Inl err, conn1) \<Rightarrow> (Inl err, conn1)
      | (Inr port, conn1) \<Rightarrow>
          (Inr \<lparr>FQDN = fqdn, IP = addr,
                 Port = int (unat (port ! 0)) * 256 + int (unat (port ! 1))\<rparr>, conn1))"

definition readAddrSpec_spec :: "Conn \<Rightarrow> (error + AddrSpec) \<times> Conn" where
  "readAddrSpec_spec conn =
     (case bufConn_Read 1 conn of
        (Inl err, conn1) \<Rightarrow> (Inl err, conn1)
      | (Inr addrType, conn1) \<Rightarrow>
          if addrType = [1] then
            (case bufConn_Read 4 conn1 of
               (Inl err, conn2) \<Rightarrow> (Inl err, conn2)
             | (Inr addr, conn2) \<Rightarrow> readPort_spec [] (AddrFrom4 addr) conn2)
          else if addrType = [3] then
            (case bufConn_Read 1 conn1 of
               (Inl err, conn2) \<Rightarrow> (Inl err, conn2)
             | (Inr addrLen, conn2) \<Rightarrow>
                 (case bufConn_Read (unat (addrLen ! 0)) conn2 of
                    (Inl err, conn3) \<Rightarrow> (Inl err, conn3)
                  | (Inr fqdn, conn3) \<Rightarrow>
                      readPort_spec (map (\<lambda>b. char_of (unat b)) fqdn) AddrZero conn3))
          else if addrType = [4] then
            (case bufConn_Read 16 conn1 of
               (Inl err, conn2) \<Rightarrow> (Inl err, conn2)
             | (Inr addr, conn2) \<Rightarrow> readPort_spec [] (AddrFrom16 addr) conn2)
          else (Inl ErrUnrecognizedAddrType, conn1))"

definition NewRequest_spec :: "Conn \<Rightarrow> (error + Request) \<times> Conn" where
  "NewRequest_spec conn =
     (case bufConn_Read 3 conn of
        (Inl err, conn1) \<Rightarrow> (Inl (Errorf ''failed to get command version: %v'' err), conn1)
      | (Inr header, conn1) \<Rightarrow>
          if header ! 0 \<noteq> socks5Version
          then (Inl (ErrorfBytes ''unsupported command version: %v'' [header ! 0]), conn1)
          else
            (case readAddrSpec_spec conn1 of
               (Inl err, conn2) \<Rightarrow> (Inl err, conn2)
             | (Inr dest, conn2) \<Rightarrow>
                 (Inr \<lparr>Command = header ! 1, AuthContext = None, RemoteAddr = None,
                        DestAddr = dest\<rparr>, conn2)))"

text \<open>
  Modelled from the spec: \<open>sendReply\<close> and the reply code \<open>addrTypeNotSupported\<close>, which
  are not part of the sources at hand. A reply is the version byte, the reply code, a
  reserved zero byte and the bound address (type, address, big-endian port); an absent
  address is sent as the IPv4 address 0.0.0.0 with port 0.
\<close>

definition beBytes :: "nat \<Rightarrow> 'a::len word \<Rightarrow> 8 word list" where
  "beBytes n w = map (\<lambda>i. ucast (drop_bit (8 * (n - 1 - i)) w)) [0..<n]"

definition portBytes :: "int \<Rightarrow> 8 word list" where
  "portBytes port = [of_int (port div 256), of_int port]"

definition sendReply_spec :: "Conn \<Rightarrow> 8 word \<Rightarrow> AddrSpec option \<Rightarrow> error option \<times> Conn" where
  "sendReply_spec conn resp addr =
     (case addr of
        None \<Rightarrow> conn_Write ([socks5Version, resp, 0, 1] @ [0, 0, 0, 0] @ [0, 0]) conn
      | Some a \<Rightarrow>
          if FQDN a \<noteq> [] then
            conn_Write ([socks5Version, resp, 0, 3, of_nat (length (FQDN a))]
                          @ map (\<lambda>c. of_nat (of_char c)) (FQDN a) @ portBytes (Port a)) conn
          else case IP a of
                 AddrV4 w \<Rightarrow>
                   conn_Write ([socks5Version, resp, 0, 1] @ beBytes 4 w @ portBytes (Port a)) conn
               | AddrV6 w z \<Rightarrow>
                   conn_Write ([socks5Version, resp, 0, 4] @ beBytes 16 w @ portBytes (Port a)) conn
               | AddrZero \<Rightarrow> (Some (Errorf0 ''failed to format address''), conn))"

definition addrTypeNotSupported_spec :: "8 word" where
  "addrTypeNotSupported_spec = 8"

subsection \<open>Notions the properties are stated with\<close>

text \<open>The IPv4 addresses from \<open>lo\<close> to \<open>hi\<close>: 172.16.0.0/12 is the range from 172.16.0.0
  to 172.31.255.255, 100.64.0.0/10 the range from 100.64.0.0 to 100.127.255.255.\<close>

fun in_v4_range :: "32 word \<Rightarrow> 32 word \<Rightarrow> Addr \<Rightarrow> bool" where
  "in_v4_range lo hi (AddrV4 a) = (lo \<le> a \<and> a \<le> hi)"
| "in_v4_range lo hi _ = False"

definition in_172_16_12 :: "Addr \<Rightarrow> bool" where
  "in_172_16_12 ip = in_v4_range 0xAC100000 0xAC1FFFFF ip"

definition in_100_64_10 :: "Addr \<Rightarrow> bool" where
  "in_100_64_10 ip = in_v4_range 0x64400000 0x647FFFFF ip"

text \<open>Events that move bytes over the connection.\<close>

fun isRead :: "Event \<Rightarrow> bool" where
  "isRead (ConnRead _) = True"
| "isRead _ = False"

fun isWrite :: "Event \<Rightarrow> bool" where
  "isWrite (ConnWrite _) = True"
| "isWrite _ = False"

text \<open>The second connection is the first after some reads: same peer, same transport,
  and the events added are all reads.\<close>

definition only_reads :: "Conn \<Rightarrow> Conn \<Rightarrow> bool" where
  "only_reads conn conn' =
     (conn_RemoteAddr conn' = conn_RemoteAddr conn \<and> writeErr conn' = writeErr conn
      \<and> take (length (trace conn)) (trace conn') = trace conn
      \<and> list_all isRead (drop (length (trace conn)) (trace conn')))"

text \<open>\<open>netip.AddrFromSlice\<close>: the address a byte slice of length 4 or 16 stands for. The
  address of a TCP peer is this address of its \<open>IP\<close>.\<close>

definition AddrFromSlice :: "8 word list \<Rightarrow> Addr" where
  "AddrFromSlice bs =
     (if length bs = 4 then AddrFrom4 bs
      else if length bs = 16 then AddrFrom16 bs
      else AddrZero)"


subsection \<open>Values for the examples\<close>

text \<open>
  A TCP connection with a healthy transport and nothing done yet: how the peer address
  prints, its bytes and port, and the bytes the client sends.
\<close>

definition tcpConn :: "string \<Rightarrow> 8 word list \<Rightarrow> int \<Rightarrow> 8 word list \<Rightarrow> Conn" where
  "tcpConn str ipBytes port bytes =
     \<lparr>conn_RemoteAddr = \<lparr>addrString = str, addrTCP = Some (TCPAddr ipBytes port [])\<rparr>,
      unread = bytes, writeErr = None, trace = []\<rparr>"

text \<open>
  One instance of the absent functions: the authentication succeeds with an empty context
  and leaves the connection alone (the no-op method), requests are decoded and replies
  encoded as the specification lays them out, and the command handler does nothing.
\<close>

definition example_Pkg :: Pkg where
  "example_Pkg =
     \<lparr>authenticate = (\<lambda>s conn. (Inr \<lparr>Method = 0, Payload = []\<rparr>, conn)),
      NewRequest = NewRequest_spec,
      sendReply = sendReply_spec,
      handleRequest = (\<lambda>s request conn. (None, conn)),
      addrTypeNotSupported = addrTypeNotSupported_spec\<rparr>"

section \<open>Properties\<close>

subsection \<open>The two reserved ranges\<close>

text \<open>The prefix test of the library, on the two prefixes of the server, is membership in
  the two address ranges.\<close>

lemma xor_eq_0_iff_word: "(x XOR y = 0) \<longleftrightarrow> (x = y)" for x y :: "'a::len word"
  by (metis bit.xor_self xor.right_neutral xor.assoc xor.left_neutral)

lemma classBCIDR_eq: "classBCIDR = \<lparr>pfx_ip = AddrV4 0xAC100000, bitsPlusOne = 13\<rparr>"
  by (simp add: classBCIDR_def PrefixFrom_def AddrFrom4_def)

lemma cgnatCIDR_eq: "cgnatCIDR = \<lparr>pfx_ip = AddrV4 0x64400000, bitsPlusOne = 11\<rparr>"
  by (simp add: cgnatCIDR_def PrefixFrom_def AddrFrom4_def)

lemma unat_drop_bit_div: "unat (drop_bit n a) = unat a div 2 ^ n" for a :: "32 word"
  by (subst unat_drop_bit_eq) (simp add: drop_bit_eq_div)

lemma top12: "(drop_bit 20 a XOR 0xAC1 = 0) \<longleftrightarrow> (0xAC100000 \<le> a \<and> a \<le> 0xAC1FFFFF)" for a :: "32 word"
proof -
  have "(drop_bit 20 a XOR 0xAC1 = 0) \<longleftrightarrow> (drop_bit 20 a = (0xAC1 :: 32 word))"
    by (simp only: xor_eq_0_iff_word)
  also have "\<dots> \<longleftrightarrow> (unat (drop_bit 20 a) = 0xAC1)"
    by (simp add: word_unat_eq_iff)
  also have "\<dots> \<longleftrightarrow> (unat a div 2 ^ 20 = 0xAC1)"
    by (simp only: unat_drop_bit_div)
  also have "\<dots> \<longleftrightarrow> (0xAC100000 \<le> unat a \<and> unat a \<le> 0xAC1FFFFF)"
    by auto
  also have "\<dots> \<longleftrightarrow> (0xAC100000 \<le> a \<and> a \<le> 0xAC1FFFFF)"
    by (simp add: word_le_nat_alt)
  finally show ?thesis .
qed

lemma top10: "(drop_bit 22 a XOR 0x191 = 0) \<longleftrightarrow> (0x64400000 \<le> a \<and> a \<le> 0x647FFFFF)" for a :: "32 word"
proof -
  have "(drop_bit 22 a XOR 0x191 = 0) \<longleftrightarrow> (drop_bit 22 a = (0x191 :: 32 word))"
    by (simp only: xor_eq_0_iff_word)
  also have "\<dots> \<longleftrightarrow> (unat (drop_bit 22 a) = 0x191)"
    by (simp add: word_unat_eq_iff)
  also have "\<dots> \<longleftrightarrow> (unat a div 2 ^ 22 = 0x191)"
    by (simp only: unat_drop_bit_div)
  also have "\<dots> \<longleftrightarrow> (0x64400000 \<le> unat a \<and> unat a \<le> 0x647FFFFF)"
    by auto
  also have "\<dots> \<longleftrightarrow> (0x64400000 \<le> a \<and> a \<le> 0x647FFFFF)"
    by (simp add: word_le_nat_alt)
  finally show ?thesis .
qed

lemma IsDockerNetwork_iff: "IsDockerNetwork ip = in_172_16_12 ip"
  by (cases ip) (simp_all add: in_172_16_12_def IsDockerNetwork_def Contains_def classBCIDR_eq Prefix_IsValid_def hasZone_def Bits_def top12)

lemma IsTailScale_iff: "IsTailScale ip = in_100_64_10 ip"
  by (cases ip) (simp_all add: in_100_64_10_def IsTailScale_def Contains_def cgnatCIDR_eq Prefix_IsValid_def hasZone_def Bits_def top10)

lemma ranges_disjoint: "in_100_64_10 ip \<Longrightarrow> \<not> in_172_16_12 ip"
  by (cases ip) (auto simp: in_100_64_10_def in_172_16_12_def word_le_nat_alt)

subsection \<open>The allow-list and the parser\<close>

lemma Compare_eq_0_iff: "Compare a b = 0 \<longleftrightarrow> a = b"
  by (cases a; cases b) (auto simp: Compare_def)

lemma whitelisted_iff: "whitelisted allowedIPs ip \<longleftrightarrow> ip \<in> set allowedIPs"
  by (induction allowedIPs) (auto simp: Compare_eq_0_iff)

lemma parseIPv4_error_zero: "snd (parseIPv4 s) \<noteq> None \<Longrightarrow> fst (parseIPv4 s) = AddrZero"
  by (auto simp: parseIPv4_def split: sum.splits)

lemma parseIPv6_error_zero: "snd (parseIPv6 s) \<noteq> None \<Longrightarrow> fst (parseIPv6 s) = AddrZero"
  by (auto simp: parseIPv6_def Let_def split: if_splits sum.splits prod.splits option.splits)

lemma ParseAddr_scan_error_zero:
  "snd (ParseAddr_scan s cs) \<noteq> None \<Longrightarrow> fst (ParseAddr_scan s cs) = AddrZero"
  by (induction cs) (auto simp: parseIPv4_error_zero parseIPv6_error_zero)

lemma ParseAddr_error_zero: "snd (ParseAddr s) \<noteq> None \<Longrightarrow> fst (ParseAddr s) = AddrZero"
  by (simp add: ParseAddr_def ParseAddr_scan_error_zero)

subsection \<open>The steps of ServeConn\<close>

lemma gate_admit_shape:
  assumes "ServeConn_gate s conn = (None, conn1)"
  shows "\<exists>f a. conn1 = logEvent (LogInfof f a) conn"
  using assms
  by (auto simp: ServeConn_gate_def Let_def split: sum.splits prod.splits if_splits)

lemma gate_deny_shape:
  assumes "ServeConn_gate s conn = (Some err, conn1)"
  shows "\<exists>e. conn1 = logEvent e conn \<and> \<not> isRead e \<and> \<not> isWrite e"
  using assms
  by (auto simp: ServeConn_gate_def Let_def split: sum.splits prod.splits if_splits)

lemma version_empty:
  "unread conn = [] \<Longrightarrow> ServeConn_version conn
     = (Some EOF, logEvent (LogErrorf ''failed to get version byte: %v'' EOF) conn)"
  by (simp add: ServeConn_version_def bufConn_Read_def)

lemma version_bad:
  "unread conn = b # bs \<Longrightarrow> b \<noteq> 5 \<Longrightarrow> ServeConn_version conn
     = (Some (ErrorfBytes ''unsupported SOCKS version: %v'' [b]),
        logEvent (LogErrorf ''socks: %v'' (ErrorfBytes ''unsupported SOCKS version: %v'' [b]))
          (conn\<lparr>unread := bs, trace := trace conn @ [ConnRead [b]]\<rparr>))"
  by (simp add: ServeConn_version_def bufConn_Read_def socks5Version_def Let_def)

lemma version_ok:
  "unread conn = 5 # bs \<Longrightarrow> ServeConn_version conn
     = (None, conn\<lparr>unread := bs, trace := trace conn @ [ConnRead [5]]\<rparr>)"
  by (simp add: ServeConn_version_def bufConn_Read_def socks5Version_def)


lemma ServeConn_denied:
  "ServeConn_gate s conn = (Some err, conn1) \<Longrightarrow> ServeConn pkg s conn = (Some err, conn_Close conn1)"
  by (simp add: ServeConn_def)

lemma ServeConn_admitted_empty:
  "ServeConn_gate s conn = (None, conn1) \<Longrightarrow> unread conn1 = [] \<Longrightarrow>
   ServeConn pkg s conn
     = (Some EOF, conn_Close (logEvent (LogErrorf ''failed to get version byte: %v'' EOF) conn1))"
  by (simp add: ServeConn_def version_empty)

lemma ServeConn_admitted_bad:
  "ServeConn_gate s conn = (None, conn1) \<Longrightarrow> unread conn1 = b # bs \<Longrightarrow> b \<noteq> 5 \<Longrightarrow>
   ServeConn pkg s conn
     = (Some (ErrorfBytes ''unsupported SOCKS version: %v'' [b]),
        conn_Close (logEvent (LogErrorf ''socks: %v'' (ErrorfBytes ''unsupported SOCKS version: %v'' [b]))
          (conn1\<lparr>unread := bs, trace := trace conn1 @ [ConnRead [b]]\<rparr>)))"
  by (simp add: ServeConn_def version_bad)

lemma ServeConn_admitted_v5:
  "ServeConn_gate s conn = (None, conn1) \<Longrightarrow> unread conn1 = 5 # bs \<Longrightarrow>
   ServeConn pkg s conn
     = (case ServeConn_request pkg s (conn1\<lparr>unread := bs, trace := trace conn1 @ [ConnRead [5]]\<rparr>) of
          (res, conn3) \<Rightarrow> (res, conn_Close conn3))"
  by (simp add: ServeConn_def version_ok)

lemma gate_by_ranges:
  assumes "SplitHostPort (addrString (conn_RemoteAddr conn)) = Inr (clientIP, port)"
  shows "ServeConn_gate s conn =
     (if in_172_16_12 (fst (ParseAddr clientIP))
      then (None, logEvent (LogInfof ''connection from Docker IP address: %s'' clientIP) conn)
      else if in_100_64_10 (fst (ParseAddr clientIP))
      then (None, logEvent (LogInfof ''connection from Tailscale IP address: %s'' clientIP) conn)
      else if isIPAllowed s (fst (ParseAddr clientIP))
      then (None, logEvent (LogInfof ''connection from allowed address: %s'' clientIP) conn)
      else (Some (Errorf0 ''connection from not allowed IP address''),
            logEvent (LogWarnf ''connection from not allowed IP address: %s'' clientIP) conn))"
  using assms by (simp add: ServeConn_gate_def Let_def IsDockerNetwork_iff IsTailScale_iff)

subsection \<open>Evaluation on concrete inputs\<close>

text \<open>The equations that evaluate the parsers on a given string.\<close>

lemma replicate_numeral: "replicate (numeral k) x = x # replicate (pred_numeral k) x"
  by (simp add: numeral_eq_Suc)

lemmas eval_defs = ParseAddr_def parseIPv4_def parseIPv4Fields_def isDigit_def digitVal_def
  AddrFrom4_def AddrFrom16_def parseIPv6_def parseIPv6_body_def parseIPv6_loop.simps hexVal_def
  less_eq_char_def less_char_def Let_def SplitHostPort_def replicate_numeral char_of_def
  tcpConn_def

subsection \<open>The admission gate\<close>

text \<open>
  C1. Take a connection whose peer address splits into host and port, with the parsed host
  outside 172.16.0.0/12 and outside 100.64.0.0/10, and a server whose allow-list is
  \<open>allowedIPs\<close> (set by \<open>SetIPWhitelist\<close>, or empty as \<open>New\<close> leaves it). If the address is
  not in the allow-list, the gate denies and \<open>ServeConn\<close> returns the error "connection
  from not allowed IP address", having logged a warning and closed the connection. If the
  address is in the allow-list, the gate admits with the log line "connection from allowed
  address" and the handler goes on to read the version byte: with nothing to read it fails
  on that read, and otherwise the first byte is taken from the connection.
\<close>

theorem allow_list_decides:
  assumes split: "SplitHostPort (addrString (conn_RemoteAddr conn)) = Inr (clientIP, port)"
    and ip: "ip = fst (ParseAddr clientIP)"
    and nd: "\<not> in_172_16_12 ip" and nt: "\<not> in_100_64_10 ip"
    and wl: "isIPAllowed s = whitelisted allowedIPs"
  shows "(ip \<notin> set allowedIPs \<longrightarrow>
            ServeConn_gate s conn =
              (Some (Errorf0 ''connection from not allowed IP address''),
               conn\<lparr>trace := trace conn
                      @ [LogWarnf ''connection from not allowed IP address: %s'' clientIP]\<rparr>)
          \<and> ServeConn pkg s conn =
              (Some (Errorf0 ''connection from not allowed IP address''),
               conn\<lparr>trace := trace conn
                      @ [LogWarnf ''connection from not allowed IP address: %s'' clientIP,
                         ConnClose]\<rparr>))
       \<and> (ip \<in> set allowedIPs \<longrightarrow>
            ServeConn_gate s conn =
              (None, conn\<lparr>trace := trace conn
                      @ [LogInfof ''connection from allowed address: %s'' clientIP]\<rparr>)
          \<and> (unread conn = [] \<longrightarrow>
               ServeConn pkg s conn =
                 (Some EOF,
                  conn\<lparr>trace := trace conn
                      @ [LogInfof ''connection from allowed address: %s'' clientIP,
                         LogErrorf ''failed to get version byte: %v'' EOF, ConnClose]\<rparr>))
          \<and> (\<forall>b bs. unread conn = b # bs \<and> b \<noteq> 5 \<longrightarrow>
               ServeConn pkg s conn =
                 (Some (ErrorfBytes ''unsupported SOCKS version: %v'' [b]),
                  conn\<lparr>unread := bs, trace := trace conn
                      @ [LogInfof ''connection from allowed address: %s'' clientIP,
                         ConnRead [b],
                         LogErrorf ''socks: %v'' (ErrorfBytes ''unsupported SOCKS version: %v'' [b]),
                         ConnClose]\<rparr>))
          \<and> (\<forall>bs. unread conn = 5 # bs \<longrightarrow>
               ServeConn pkg s conn =
                 (case ServeConn_request pkg s
                         (conn\<lparr>unread := bs, trace := trace conn
                            @ [LogInfof ''connection from allowed address: %s'' clientIP,
                               ConnRead [5]]\<rparr>) of
                    (res, conn3) \<Rightarrow> (res, conn_Close conn3))))"
proof (intro conjI impI allI)
  assume out: "ip \<notin> set allowedIPs"
  show g: "ServeConn_gate s conn =
      (Some (Errorf0 ''connection from not allowed IP address''),
       conn\<lparr>trace := trace conn
              @ [LogWarnf ''connection from not allowed IP address: %s'' clientIP]\<rparr>)"
    using out nd nt ip wl by (simp add: gate_by_ranges [OF split] whitelisted_iff logEvent_def)
  show "ServeConn pkg s conn =
      (Some (Errorf0 ''connection from not allowed IP address''),
       conn\<lparr>trace := trace conn
              @ [LogWarnf ''connection from not allowed IP address: %s'' clientIP, ConnClose]\<rparr>)"
    by (simp add: ServeConn_denied [OF g] conn_Close_def)
next
  assume inl: "ip \<in> set allowedIPs"
  show g: "ServeConn_gate s conn =
      (None, conn\<lparr>trace := trace conn
              @ [LogInfof ''connection from allowed address: %s'' clientIP]\<rparr>)"
    using inl nd nt ip wl by (simp add: gate_by_ranges [OF split] whitelisted_iff logEvent_def)
  {
    assume "unread conn = []"
    then show "ServeConn pkg s conn =
        (Some EOF,
         conn\<lparr>trace := trace conn
             @ [LogInfof ''connection from allowed address: %s'' clientIP,
                LogErrorf ''failed to get version byte: %v'' EOF, ConnClose]\<rparr>)"
      by (simp add: ServeConn_admitted_empty [OF g] conn_Close_def logEvent_def)
  next
    fix b bs
    assume "unread conn = b # bs \<and> b \<noteq> 5"
    then show "ServeConn pkg s conn =
        (Some (ErrorfBytes ''unsupported SOCKS version: %v'' [b]),
         conn\<lparr>unread := bs, trace := trace conn
             @ [LogInfof ''connection from allowed address: %s'' clientIP,
                ConnRead [b],
                LogErrorf ''socks: %v'' (ErrorfBytes ''unsupported SOCKS version: %v'' [b]),
                ConnClose]\<rparr>)"
      by (simp add: ServeConn_admitted_bad [OF g, of b bs] conn_Close_def logEvent_def)
  next
    fix bs
    assume "unread conn = 5 # bs"
    then show "ServeConn pkg s conn =
        (case ServeConn_request pkg s
                (conn\<lparr>unread := bs, trace := trace conn
                   @ [LogInfof ''connection from allowed address: %s'' clientIP,
                      ConnRead [5]]\<rparr>) of
           (res, conn3) \<Rightarrow> (res, conn_Close conn3))"
      by (simp add: ServeConn_admitted_v5 [OF g, of bs])
  }
qed


text \<open>An instance: the allow-list holds 198.51.100.9; a connection from 203.0.113.7 is
  denied, one from 198.51.100.9 is admitted and its first byte, 4, is read.\<close>

theorem allow_list_decides_witness:
  "ServeConn example_Pkg (SetIPWhitelist (fst (New GetCode_rfc1928 zeroConfig)) [AddrV4 0xC6336409])
       (tcpConn ''203.0.113.7:51000'' [203, 0, 113, 7] 51000 [5, 1, 0])
     = (Some (Errorf0 ''connection from not allowed IP address''),
        (tcpConn ''203.0.113.7:51000'' [203, 0, 113, 7] 51000 [5, 1, 0])
          \<lparr>trace := [LogWarnf ''connection from not allowed IP address: %s'' ''203.0.113.7'',
                     ConnClose]\<rparr>)
   \<and> ServeConn example_Pkg (SetIPWhitelist (fst (New GetCode_rfc1928 zeroConfig)) [AddrV4 0xC6336409])
       (tcpConn ''198.51.100.9:51000'' [198, 51, 100, 9] 51000 [4, 1])
     = (Some (ErrorfBytes ''unsupported SOCKS version: %v'' [4]),
        (tcpConn ''198.51.100.9:51000'' [198, 51, 100, 9] 51000 [4, 1])
          \<lparr>unread := [1],
            trace := [LogInfof ''connection from allowed address: %s'' ''198.51.100.9'',
                     ConnRead [4],
                     LogErrorf ''socks: %v'' (ErrorfBytes ''unsupported SOCKS version: %v'' [4]),
                     ConnClose]\<rparr>)"
proof -
  let ?s = "SetIPWhitelist (fst (New GetCode_rfc1928 zeroConfig)) [AddrV4 0xC6336409]"
  let ?c1 = "tcpConn ''203.0.113.7:51000'' [203, 0, 113, 7] 51000 [5, 1, 0]"
  let ?c2 = "tcpConn ''198.51.100.9:51000'' [198, 51, 100, 9] 51000 [4, 1]"
  have wl: "isIPAllowed ?s = whitelisted [AddrV4 0xC6336409]"
    by (simp add: SetIPWhitelist_def)
  have s1: "SplitHostPort (addrString (conn_RemoteAddr ?c1)) = Inr (''203.0.113.7'', ''51000'')"
    by (simp add: eval_defs)
  have p1: "AddrV4 0xCB007107 = fst (ParseAddr ''203.0.113.7'')"
    by (simp add: eval_defs)
  have s2: "SplitHostPort (addrString (conn_RemoteAddr ?c2)) = Inr (''198.51.100.9'', ''51000'')"
    by (simp add: eval_defs)
  have p2: "AddrV4 0xC6336409 = fst (ParseAddr ''198.51.100.9'')"
    by (simp add: eval_defs)
  have n1: "\<not> in_172_16_12 (AddrV4 0xCB007107)" "\<not> in_100_64_10 (AddrV4 0xCB007107)"
    by (simp_all add: in_172_16_12_def in_100_64_10_def)
  have n2: "\<not> in_172_16_12 (AddrV4 0xC6336409)" "\<not> in_100_64_10 (AddrV4 0xC6336409)"
    by (simp_all add: in_172_16_12_def in_100_64_10_def)
  have u1: "trace ?c1 = []" and u2: "trace ?c2 = []" "unread ?c2 = [4, 1]"
    by (simp_all add: tcpConn_def)
  from allow_list_decides [OF s1 p1 n1 wl, of example_Pkg] u1
  have a: "ServeConn example_Pkg ?s ?c1
     = (Some (Errorf0 ''connection from not allowed IP address''),
        ?c1\<lparr>trace := [LogWarnf ''connection from not allowed IP address: %s'' ''203.0.113.7'',
                     ConnClose]\<rparr>)"
    by simp
  from allow_list_decides [OF s2 p2 n2 wl, of example_Pkg] u2
  have b: "ServeConn example_Pkg ?s ?c2
     = (Some (ErrorfBytes ''unsupported SOCKS version: %v'' [4]),
        ?c2\<lparr>unread := [1],
            trace := [LogInfof ''connection from allowed address: %s'' ''198.51.100.9'',
                     ConnRead [4],
                     LogErrorf ''socks: %v'' (ErrorfBytes ''unsupported SOCKS version: %v'' [4]),
                     ConnClose]\<rparr>)"
    by simp
  from a b show ?thesis by (rule conjI)
qed

text \<open>
  C2. A connection whose peer address splits into host and port, with the parsed host a
  valid IPv4 address inside 172.16.0.0/12, is admitted by the gate of every server, whatever
  its allow-list (the one \<open>New\<close> leaves, or one set by \<open>SetIPWhitelist\<close>), and the log
  line is the one of a Docker address.
\<close>

theorem docker_range_admitted:
  assumes split: "SplitHostPort (addrString (conn_RemoteAddr conn)) = Inr (clientIP, port)"
    and inside: "in_172_16_12 (fst (ParseAddr clientIP))"
  shows "ServeConn_gate s conn =
           (None, conn\<lparr>trace := trace conn
                   @ [LogInfof ''connection from Docker IP address: %s'' clientIP]\<rparr>)
       \<and> ServeConn_gate (SetIPWhitelist s allowedIPs) conn =
           (None, conn\<lparr>trace := trace conn
                   @ [LogInfof ''connection from Docker IP address: %s'' clientIP]\<rparr>)"
  using inside by (simp add: gate_by_ranges [OF split] logEvent_def)

text \<open>An instance: the peer 172.20.3.4, with the default allow-list and with another.\<close>

theorem docker_range_admitted_witness:
  "ServeConn_gate (fst (New GetCode_rfc1928 zeroConfig))
       (tcpConn ''172.20.3.4:51000'' [172, 20, 3, 4] 51000 [5, 1, 0])
     = (None, (tcpConn ''172.20.3.4:51000'' [172, 20, 3, 4] 51000 [5, 1, 0])
          \<lparr>trace := [LogInfof ''connection from Docker IP address: %s'' ''172.20.3.4'']\<rparr>)
   \<and> ServeConn_gate (SetIPWhitelist (fst (New GetCode_rfc1928 zeroConfig)) [AddrV4 0xC6336409])
       (tcpConn ''172.20.3.4:51000'' [172, 20, 3, 4] 51000 [5, 1, 0])
     = (None, (tcpConn ''172.20.3.4:51000'' [172, 20, 3, 4] 51000 [5, 1, 0])
          \<lparr>trace := [LogInfof ''connection from Docker IP address: %s'' ''172.20.3.4'']\<rparr>)"
proof -
  let ?c = "tcpConn ''172.20.3.4:51000'' [172, 20, 3, 4] 51000 [5, 1, 0]"
  have s: "SplitHostPort (addrString (conn_RemoteAddr ?c)) = Inr (''172.20.3.4'', ''51000'')"
    by (simp add: eval_defs)
  have p: "fst (ParseAddr ''172.20.3.4'') = AddrV4 0xAC140304"
    by (simp add: eval_defs)
  have i: "in_172_16_12 (fst (ParseAddr ''172.20.3.4''))"
    unfolding p by (simp add: in_172_16_12_def)
  have t: "trace ?c = []"
    by (simp add: tcpConn_def)
  from docker_range_admitted [OF s i, of "fst (New GetCode_rfc1928 zeroConfig)" "[AddrV4 0xC6336409]"] t
  show ?thesis by simp
qed

text \<open>
  C3. A connection whose peer address splits into host and port, with the parsed host a
  valid IPv4 address inside 100.64.0.0/10 (and not inside 172.16.0.0/12), is admitted by
  the gate of every server, whatever its allow-list, with the log line of a Tailscale
  address.
\<close>

theorem tailscale_range_admitted:
  assumes split: "SplitHostPort (addrString (conn_RemoteAddr conn)) = Inr (clientIP, port)"
    and inside: "in_100_64_10 (fst (ParseAddr clientIP))"
    and outside: "\<not> in_172_16_12 (fst (ParseAddr clientIP))"
  shows "ServeConn_gate s conn =
           (None, conn\<lparr>trace := trace conn
                   @ [LogInfof ''connection from Tailscale IP address: %s'' clientIP]\<rparr>)
       \<and> ServeConn_gate (SetIPWhitelist s allowedIPs) conn =
           (None, conn\<lparr>trace := trace conn
                   @ [LogInfof ''connection from Tailscale IP address: %s'' clientIP]\<rparr>)"
  using inside outside by (simp add: gate_by_ranges [OF split] logEvent_def)

text \<open>An instance: the peer 100.100.7.8.\<close>

theorem tailscale_range_admitted_witness:
  "ServeConn_gate (fst (New GetCode_rfc1928 zeroConfig))
       (tcpConn ''100.100.7.8:51000'' [100, 100, 7, 8] 51000 [5, 1, 0])
     = (None, (tcpConn ''100.100.7.8:51000'' [100, 100, 7, 8] 51000 [5, 1, 0])
          \<lparr>trace := [LogInfof ''connection from Tailscale IP address: %s'' ''100.100.7.8'']\<rparr>)
   \<and> ServeConn_gate (SetIPWhitelist (fst (New GetCode_rfc1928 zeroConfig)) [AddrV4 0xC6336409])
       (tcpConn ''100.100.7.8:51000'' [100, 100, 7, 8] 51000 [5, 1, 0])
     = (None, (tcpConn ''100.100.7.8:51000'' [100, 100, 7, 8] 51000 [5, 1, 0])
          \<lparr>trace := [LogInfof ''connection from Tailscale IP address: %s'' ''100.100.7.8'']\<rparr>)"
proof -
  let ?c = "tcpConn ''100.100.7.8:51000'' [100, 100, 7, 8] 51000 [5, 1, 0]"
  have s: "SplitHostPort (addrString (conn_RemoteAddr ?c)) = Inr (''100.100.7.8'', ''51000'')"
    by (simp add: eval_defs)
  have p: "fst (ParseAddr ''100.100.7.8'') = AddrV4 0x64640708"
    by (simp add: eval_defs)
  have i: "in_100_64_10 (fst (ParseAddr ''100.100.7.8''))"
    unfolding p by (simp add: in_100_64_10_def)
  have o: "\<not> in_172_16_12 (fst (ParseAddr ''100.100.7.8''))"
    unfolding p by (simp add: in_172_16_12_def)
  have t: "trace ?c = []"
    by (simp add: tcpConn_def)
  from tailscale_range_admitted [OF s i o, of "fst (New GetCode_rfc1928 zeroConfig)" "[AddrV4 0xC6336409]"] t
  show ?thesis by simp
qed

subsection \<open>The version byte\<close>

text \<open>
  C4. On an admitted connection whose first byte \<open>b\<close> is not 5, \<open>ServeConn\<close> returns the
  error "unsupported SOCKS version"; after the log line of the admission it has taken this
  one byte from the reader, logged the error and closed the connection. Nothing was
  written, and the bytes after the first are still unread.
\<close>

theorem bad_version_closes_silently:
  assumes adm: "fst (ServeConn_gate s conn) = None"
    and first: "unread conn = b # bs" and bad: "b \<noteq> 5"
  shows "\<exists>f a. ServeConn pkg s conn =
           (Some (ErrorfBytes ''unsupported SOCKS version: %v'' [b]),
            conn\<lparr>unread := bs,
                 trace := trace conn
                   @ [LogInfof f a, ConnRead [b],
                      LogErrorf ''socks: %v'' (ErrorfBytes ''unsupported SOCKS version: %v'' [b]),
                      ConnClose]\<rparr>)"
proof -
  obtain conn1 where g: "ServeConn_gate s conn = (None, conn1)"
    using adm by (cases "ServeConn_gate s conn") simp
  from gate_admit_shape [OF g] obtain f a where c1: "conn1 = logEvent (LogInfof f a) conn"
    by blast
  have u: "unread conn1 = b # bs"
    using first by (simp add: c1 logEvent_def)
  have "ServeConn pkg s conn =
           (Some (ErrorfBytes ''unsupported SOCKS version: %v'' [b]),
            conn\<lparr>unread := bs,
                 trace := trace conn
                   @ [LogInfof f a, ConnRead [b],
                      LogErrorf ''socks: %v'' (ErrorfBytes ''unsupported SOCKS version: %v'' [b]),
                      ConnClose]\<rparr>)"
    by (simp add: ServeConn_admitted_bad [OF g u bad] c1 conn_Close_def logEvent_def)
  then show ?thesis by blast
qed

text \<open>An instance: the peer 172.20.3.4 sends 4, 1, 0.\<close>

theorem bad_version_closes_silently_witness:
  "\<exists>f a. ServeConn example_Pkg (fst (New GetCode_rfc1928 zeroConfig))
             (tcpConn ''172.20.3.4:51000'' [172, 20, 3, 4] 51000 [4, 1, 0])
     = (Some (ErrorfBytes ''unsupported SOCKS version: %v'' [4]),
        (tcpConn ''172.20.3.4:51000'' [172, 20, 3, 4] 51000 [4, 1, 0])
          \<lparr>unread := [1, 0],
            trace := [LogInfof f a, ConnRead [4],
                      LogErrorf ''socks: %v'' (ErrorfBytes ''unsupported SOCKS version: %v'' [4]),
                      ConnClose]\<rparr>)"
proof -
  let ?c = "tcpConn ''172.20.3.4:51000'' [172, 20, 3, 4] 51000 [4, 1, 0]"
  let ?s = "fst (New GetCode_rfc1928 zeroConfig)"
  have s: "SplitHostPort (addrString (conn_RemoteAddr ?c)) = Inr (''172.20.3.4'', ''51000'')"
    by (simp add: eval_defs)
  have p: "fst (ParseAddr ''172.20.3.4'') = AddrV4 0xAC140304"
    by (simp add: eval_defs)
  have g: "fst (ServeConn_gate ?s ?c) = None"
    by (simp add: gate_by_ranges [OF s] p in_172_16_12_def)
  have u: "unread ?c = 4 # [1, 0]" and t: "trace ?c = []"
    by (simp_all add: tcpConn_def)
  have b: "(4 :: 8 word) \<noteq> 5"
    by simp
  from bad_version_closes_silently [OF g u b, of example_Pkg] t
  show ?thesis by simp
qed

subsection \<open>Denied connections\<close>

text \<open>
  C9. When the gate denies a connection, \<open>ServeConn\<close> returns the gate's error; all it has
  done is one log line (neither a read nor a write) and then the deferred close. No byte
  was taken from the connection and none written: the unread bytes are as before.
\<close>

theorem denied_no_io:
  assumes deny: "fst (ServeConn_gate s conn) = Some err"
  shows "\<exists>e. \<not> isRead e \<and> \<not> isWrite e
           \<and> ServeConn pkg s conn = (Some err, conn\<lparr>trace := trace conn @ [e, ConnClose]\<rparr>)"
proof -
  obtain conn1 where g: "ServeConn_gate s conn = (Some err, conn1)"
    using deny by (cases "ServeConn_gate s conn") simp
  from gate_deny_shape [OF g] obtain e
    where c1: "conn1 = logEvent e conn" and e: "\<not> isRead e" "\<not> isWrite e"
    by blast
  have "ServeConn pkg s conn = (Some err, conn\<lparr>trace := trace conn @ [e, ConnClose]\<rparr>)"
    by (simp add: ServeConn_denied [OF g] c1 conn_Close_def logEvent_def)
  with e show ?thesis by blast
qed

text \<open>An instance: the peer 203.0.113.7 and the default allow-list.\<close>

theorem denied_no_io_witness:
  "\<exists>e. \<not> isRead e \<and> \<not> isWrite e
      \<and> ServeConn example_Pkg (fst (New GetCode_rfc1928 zeroConfig))
            (tcpConn ''203.0.113.7:51000'' [203, 0, 113, 7] 51000 [5, 1, 0])
        = (Some (Errorf0 ''connection from not allowed IP address''),
           (tcpConn ''203.0.113.7:51000'' [203, 0, 113, 7] 51000 [5, 1, 0])
             \<lparr>trace := [e, ConnClose]\<rparr>)"
proof -
  let ?c = "tcpConn ''203.0.113.7:51000'' [203, 0, 113, 7] 51000 [5, 1, 0]"
  let ?s = "fst (New GetCode_rfc1928 zeroConfig)"
  have s: "SplitHostPort (addrString (conn_RemoteAddr ?c)) = Inr (''203.0.113.7'', ''51000'')"
    by (simp add: eval_defs)
  have p: "fst (ParseAddr ''203.0.113.7'') = AddrV4 0xCB007107"
    by (simp add: eval_defs)
  have a: "\<not> isIPAllowed ?s (AddrV4 0xCB007107)"
    by (simp add: New_def Let_def zeroConfig_def)
  have g: "fst (ServeConn_gate ?s ?c) = Some (Errorf0 ''connection from not allowed IP address'')"
    using a by (simp add: gate_by_ranges [OF s] p in_172_16_12_def in_100_64_10_def)
  have t: "trace ?c = []"
    by (simp add: tcpConn_def)
  from denied_no_io [OF g, of example_Pkg] t
  show ?thesis by simp
qed

subsection \<open>Addresses that are not IPv4\<close>

text \<open>
  C8. For a peer address that splits into host and port and whose parsed host is not a
  valid IPv4 address (an IPv6 address, or the zero address left by a failed parse), both
  range checks are false and the verdict of the gate is that of the allow-list predicate:
  admitted as allow-listed if it holds, denied otherwise.
\<close>

theorem non_ipv4_skips_ranges:
  assumes split: "SplitHostPort (addrString (conn_RemoteAddr conn)) = Inr (clientIP, port)"
    and ip: "ip = fst (ParseAddr clientIP)"
    and nv4: "\<not> (IsValid ip \<and> Is4 ip)"
  shows "\<not> IsDockerNetwork ip \<and> \<not> IsTailScale ip
       \<and> ServeConn_gate s conn =
           (if isIPAllowed s ip
            then (None, conn\<lparr>trace := trace conn
                    @ [LogInfof ''connection from allowed address: %s'' clientIP]\<rparr>)
            else (Some (Errorf0 ''connection from not allowed IP address''),
                  conn\<lparr>trace := trace conn
                    @ [LogWarnf ''connection from not allowed IP address: %s'' clientIP]\<rparr>))"
proof -
  have d: "\<not> IsDockerNetwork ip" and t: "\<not> IsTailScale ip"
    using nv4 by (auto simp: IsDockerNetwork_def IsTailScale_def)
  have "ServeConn_gate s conn =
           (if isIPAllowed s ip
            then (None, conn\<lparr>trace := trace conn
                    @ [LogInfof ''connection from allowed address: %s'' clientIP]\<rparr>)
            else (Some (Errorf0 ''connection from not allowed IP address''),
                  conn\<lparr>trace := trace conn
                    @ [LogWarnf ''connection from not allowed IP address: %s'' clientIP]\<rparr>))"
    using d t ip by (simp add: ServeConn_gate_def split Let_def logEvent_def)
  with d t show ?thesis by simp
qed

text \<open>Two instances: the IPv6 peer 2001:db8::1, which is in the allow-list, and a peer
  whose host \<open>client\<close> does not parse, with the default allow-list.\<close>

theorem non_ipv4_skips_ranges_witness:
  "(\<not> IsDockerNetwork (AddrV6 0x20010DB8000000000000000000000001 [])
    \<and> \<not> IsTailScale (AddrV6 0x20010DB8000000000000000000000001 [])
    \<and> ServeConn_gate
         (SetIPWhitelist (fst (New GetCode_rfc1928 zeroConfig))
            [AddrV6 0x20010DB8000000000000000000000001 []])
         (tcpConn ''[2001:db8::1]:443''
            [0x20, 0x01, 0x0D, 0xB8, 0, 0, 0, 0, 0, 0, 0, 0, 0, 0, 0, 1] 443 [])
       = (None, (tcpConn ''[2001:db8::1]:443''
            [0x20, 0x01, 0x0D, 0xB8, 0, 0, 0, 0, 0, 0, 0, 0, 0, 0, 0, 1] 443 [])
           \<lparr>trace := [LogInfof ''connection from allowed address: %s'' ''2001:db8::1'']\<rparr>))
   \<and> (\<not> IsDockerNetwork AddrZero \<and> \<not> IsTailScale AddrZero
    \<and> ServeConn_gate (fst (New GetCode_rfc1928 zeroConfig))
         \<lparr>conn_RemoteAddr = \<lparr>addrString = ''client:1'', addrTCP = None\<rparr>,
          unread = [], writeErr = None, trace = []\<rparr>
       = (Some (Errorf0 ''connection from not allowed IP address''),
          \<lparr>conn_RemoteAddr = \<lparr>addrString = ''client:1'', addrTCP = None\<rparr>,
           unread = [], writeErr = None,
           trace = [LogWarnf ''connection from not allowed IP address: %s'' ''client'']\<rparr>))"
proof -
  let ?c = "tcpConn ''[2001:db8::1]:443''
            [0x20, 0x01, 0x0D, 0xB8, 0, 0, 0, 0, 0, 0, 0, 0, 0, 0, 0, 1] 443 []"
  let ?s = "SetIPWhitelist (fst (New GetCode_rfc1928 zeroConfig))
            [AddrV6 0x20010DB8000000000000000000000001 []]"
  let ?c' = "\<lparr>conn_RemoteAddr = \<lparr>addrString = ''client:1'', addrTCP = None\<rparr>,
          unread = [], writeErr = None, trace = []\<rparr>"
  let ?s' = "fst (New GetCode_rfc1928 zeroConfig)"
  have s: "SplitHostPort (addrString (conn_RemoteAddr ?c)) = Inr (''2001:db8::1'', ''443'')"
    by (simp add: eval_defs)
  have p: "AddrV6 0x20010DB8000000000000000000000001 [] = fst (ParseAddr ''2001:db8::1'')"
    by (simp add: eval_defs)
  have n: "\<not> (IsValid (AddrV6 0x20010DB8000000000000000000000001 [])
             \<and> Is4 (AddrV6 0x20010DB8000000000000000000000001 []))"
    by simp
  have a: "isIPAllowed ?s (AddrV6 0x20010DB8000000000000000000000001 [])"
    by (simp add: SetIPWhitelist_def whitelisted_iff)
  have t: "trace ?c = []"
    by (simp add: tcpConn_def)
  have s': "SplitHostPort (addrString (conn_RemoteAddr ?c')) = Inr (''client'', ''1'')"
    by (simp add: eval_defs)
  have p': "AddrZero = fst (ParseAddr ''client'')"
    by (simp add: eval_defs)
  have n': "\<not> (IsValid AddrZero \<and> Is4 AddrZero)"
    by simp
  have a': "\<not> isIPAllowed ?s' AddrZero"
    by (simp add: New_def Let_def zeroConfig_def)
  from non_ipv4_skips_ranges [OF s p n, of ?s] a t
    non_ipv4_skips_ranges [OF s' p' n', of ?s'] a'
  show ?thesis by simp
qed

subsection \<open>Parse errors on both sides of the allow-list\<close>

text \<open>
  C10. \<open>main\<close> and \<open>ServeConn\<close> both drop the error of \<open>ParseAddr\<close>. For the server \<open>main\<close>
  builds, an address is allowed exactly when it is equal to the parsed value of one of the
  entries of \<open>AllowedIPs\<close>. If an entry fails to parse, that list of values holds the zero
  address; a connection whose host fails to parse too has the zero address, which compares
  equal to that entry, and the gate admits it as allow-listed.
\<close>

theorem unparsable_entry_admits_unparsable_peer:
  assumes entry: "e \<in> set (AllowedIPs cfg)" and bad: "snd (ParseAddr e) \<noteq> None"
    and srv: "main_server GetCode cfg = Inr s"
    and split: "SplitHostPort (addrString (conn_RemoteAddr conn)) = Inr (clientIP, port)"
    and peer: "snd (ParseAddr clientIP) \<noteq> None"
  shows "isIPAllowed s = whitelisted (map (\<lambda>ip. fst (ParseAddr ip)) (AllowedIPs cfg))
       \<and> (\<forall>ip. isIPAllowed s ip
              \<longleftrightarrow> ip \<in> set (map (\<lambda>e. fst (ParseAddr e)) (AllowedIPs cfg)))
       \<and> AddrZero \<in> set (map (\<lambda>ip. fst (ParseAddr ip)) (AllowedIPs cfg))
       \<and> Compare (fst (ParseAddr clientIP)) AddrZero = 0
       \<and> ServeConn_gate s conn =
           (None, conn\<lparr>trace := trace conn
                   @ [LogInfof ''connection from allowed address: %s'' clientIP]\<rparr>)"
proof -
  let ?wl = "map (\<lambda>ip. fst (ParseAddr ip)) (AllowedIPs cfg)"
  have ne: "length (AllowedIPs cfg) > 0"
    using entry by (cases "AllowedIPs cfg") auto
  have allowed: "isIPAllowed s = whitelisted ?wl"
    using srv ne
    by (auto simp: main_server_def Let_def New_def SetIPWhitelist_def split: prod.splits option.splits)
  have exact: "\<forall>ip. isIPAllowed s ip \<longleftrightarrow> ip \<in> set ?wl"
    unfolding allowed by (simp only: whitelisted_iff) simp
  have "fst (ParseAddr e) = AddrZero"
    using bad by (rule ParseAddr_error_zero)
  then have zero: "AddrZero \<in> set ?wl"
    using entry by (force simp: image_iff)
  have pz: "fst (ParseAddr clientIP) = AddrZero"
    using peer by (rule ParseAddr_error_zero)
  have cmp: "Compare (fst (ParseAddr clientIP)) AddrZero = 0"
    by (simp add: pz Compare_eq_0_iff)
  have nd: "\<not> in_172_16_12 AddrZero" and nt: "\<not> in_100_64_10 AddrZero"
    by (simp_all add: in_172_16_12_def in_100_64_10_def)
  have "ServeConn_gate s conn =
           (None, conn\<lparr>trace := trace conn
                   @ [LogInfof ''connection from allowed address: %s'' clientIP]\<rparr>)"
    using nd nt zero
    by (simp add: gate_by_ranges [OF split] pz allowed whitelisted_iff logEvent_def del: set_map)
  with allowed exact zero cmp show ?thesis by blast
qed

text \<open>An instance: the second entry of \<open>198.51.100.9, 10.0.0.1\<close> starts with a space and
  does not parse; the peer address \<open>client:1\<close> is admitted.\<close>

theorem unparsable_entry_admits_unparsable_peer_witness:
  "(case main_server GetCode_rfc1928
           \<lparr>User = [], Password = [], ProxyPort = ''1080'', AllowedDestFqdn = [],
            AllowedIPs = [''198.51.100.9'', '' 10.0.0.1'']\<rparr> of
      Inl err \<Rightarrow> False
    | Inr s \<Rightarrow>
        isIPAllowed s = whitelisted [AddrV4 0xC6336409, AddrZero]
        \<and> isIPAllowed s (AddrV4 0xC6336409)
        \<and> isIPAllowed s AddrZero
        \<and> \<not> isIPAllowed s (AddrV4 0xC633640A)
        \<and> \<not> isIPAllowed s (AddrV4 0x0A000001)
        \<and> ServeConn_gate s
             \<lparr>conn_RemoteAddr = \<lparr>addrString = ''client:1'', addrTCP = None\<rparr>,
              unread = [], writeErr = None, trace = []\<rparr>
          = (None,
             \<lparr>conn_RemoteAddr = \<lparr>addrString = ''client:1'', addrTCP = None\<rparr>,
              unread = [], writeErr = None,
              trace = [LogInfof ''connection from allowed address: %s'' ''client'']\<rparr>))"
proof -
  let ?cfg = "\<lparr>User = [], Password = [], ProxyPort = ''1080'', AllowedDestFqdn = [],
            AllowedIPs = [''198.51.100.9'', '' 10.0.0.1'']\<rparr>"
  let ?c = "\<lparr>conn_RemoteAddr = \<lparr>addrString = ''client:1'', addrTCP = None\<rparr>,
              unread = [], writeErr = None, trace = []\<rparr>"
  obtain s where srv: "main_server GetCode_rfc1928 ?cfg = Inr s"
    by (simp add: main_server_def Let_def New_def)
  have e: "'' 10.0.0.1'' \<in> set (AllowedIPs ?cfg)"
    by simp
  have b: "snd (ParseAddr '' 10.0.0.1'') \<noteq> None"
    by (simp add: eval_defs)
  have sp: "SplitHostPort (addrString (conn_RemoteAddr ?c)) = Inr (''client'', ''1'')"
    by (simp add: eval_defs)
  have pb: "snd (ParseAddr ''client'') \<noteq> None"
    by (simp add: eval_defs)
  have p1: "fst (ParseAddr ''198.51.100.9'') = AddrV4 0xC6336409"
    by (simp add: eval_defs)
  have p2: "fst (ParseAddr '' 10.0.0.1'') = AddrZero"
    by (simp add: eval_defs)
  note t = unparsable_entry_admits_unparsable_peer [OF e b srv sp pb]
  have a1: "isIPAllowed s = whitelisted [AddrV4 0xC6336409, AddrZero]"
    using conjunct1 [OF t] by (simp add: p1 p2)
  have a2: "isIPAllowed s ip \<longleftrightarrow> ip \<in> set [AddrV4 0xC6336409, AddrZero]" for ip
    using conjunct1 [OF conjunct2 [OF t]] by (simp add: p1 p2)
  have a3: "ServeConn_gate s ?c
       = (None, ?c\<lparr>trace := trace ?c
                   @ [LogInfof ''connection from allowed address: %s'' ''client'']\<rparr>)"
    using t by simp
  have m: "isIPAllowed s (AddrV4 0xC6336409)" "isIPAllowed s AddrZero"
    "\<not> isIPAllowed s (AddrV4 0xC633640A)" "\<not> isIPAllowed s (AddrV4 0x0A000001)"
    unfolding a2 by simp_all
  have h: "isIPAllowed s = whitelisted [AddrV4 0xC6336409, AddrZero]
        \<and> isIPAllowed s (AddrV4 0xC6336409)
        \<and> isIPAllowed s AddrZero
        \<and> \<not> isIPAllowed s (AddrV4 0xC633640A)
        \<and> \<not> isIPAllowed s (AddrV4 0x0A000001)
        \<and> ServeConn_gate s ?c
          = (None,
             \<lparr>conn_RemoteAddr = \<lparr>addrString = ''client:1'', addrTCP = None\<rparr>,
              unread = [], writeErr = None,
              trace = [LogInfof ''connection from allowed address: %s'' ''client'']\<rparr>)"
    using a1 m a3 by (intro conjI) simp_all
  show ?thesis
    unfolding srv sum.case by (rule h)
qed

subsection \<open>The authenticators of a new server\<close>

lemma foldl_register_last:
  "xs \<noteq> [] \<Longrightarrow> foldl (\<lambda>m a. m(g a \<mapsto> a)) m xs (g (last xs)) = Some (last xs)"
  by (induction xs arbitrary: m) auto

lemma New_AuthMethods_nonempty: "AuthMethods (config (fst (New GetCode conf))) \<noteq> []"
  by (auto simp: New_def Let_def split: option.splits)

lemma New_authMethods:
  "authMethods (fst (New GetCode conf))
     = foldl (\<lambda>m a. m(GetCode a \<mapsto> a)) Map.empty (AuthMethods (config (fst (New GetCode conf))))"
  by (simp add: New_def Let_def)

text \<open>
  C7, as the code has it. For every configuration (its authenticators being values, not
  nil) and every assignment of method codes, the dispatch map of the server \<open>New\<close> returns
  has at least one entry, and \<open>New\<close> returns no error. When the configuration supplies no
  authenticator and no credential store, the map holds exactly the no-auth method; when it
  supplies no authenticator but a credential store, it holds exactly the username/password
  method over that store.
\<close>

theorem New_registers_an_authenticator:
  "dom (authMethods (fst (New GetCode conf))) \<noteq> {}
   \<and> snd (New GetCode conf) = None
   \<and> (AuthMethods conf = [] \<and> Credentials conf = None \<longrightarrow>
        authMethods (fst (New GetCode conf)) = [GetCode NoAuthAuthenticator \<mapsto> NoAuthAuthenticator])
   \<and> (\<forall>creds. AuthMethods conf = [] \<and> Credentials conf = Some creds \<longrightarrow>
        authMethods (fst (New GetCode conf))
          = [GetCode (UserPassAuthenticator creds) \<mapsto> UserPassAuthenticator creds])"
proof -
  let ?xs = "AuthMethods (config (fst (New GetCode conf)))"
  have "authMethods (fst (New GetCode conf)) (GetCode (last ?xs)) = Some (last ?xs)"
    unfolding New_authMethods by (rule foldl_register_last) (rule New_AuthMethods_nonempty)
  then have d: "dom (authMethods (fst (New GetCode conf))) \<noteq> {}"
    by auto
  have e: "snd (New GetCode conf) = None"
    by (simp add: New_def Let_def)
  have n: "AuthMethods conf = [] \<and> Credentials conf = None \<longrightarrow>
        authMethods (fst (New GetCode conf)) = [GetCode NoAuthAuthenticator \<mapsto> NoAuthAuthenticator]"
    by (simp add: New_def Let_def)
  have u: "\<forall>creds. AuthMethods conf = [] \<and> Credentials conf = Some creds \<longrightarrow>
        authMethods (fst (New GetCode conf))
          = [GetCode (UserPassAuthenticator creds) \<mapsto> UserPassAuthenticator creds]"
    by (simp add: New_def Let_def)
  from d e n u show ?thesis by blast
qed

text \<open>Two instances, with the method codes of RFC 1928: the zero configuration, and the
  zero configuration with a credential store.\<close>

theorem New_registers_an_authenticator_witness:
  "dom (authMethods (fst (New GetCode_rfc1928 zeroConfig))) \<noteq> {}
   \<and> authMethods (fst (New GetCode_rfc1928 zeroConfig)) = [0 \<mapsto> NoAuthAuthenticator]
   \<and> authMethods (fst (New GetCode_rfc1928
         (zeroConfig\<lparr>Credentials := Some (StaticCredentials [(''alice'', ''s3cret'')])\<rparr>)))
       = [2 \<mapsto> UserPassAuthenticator (StaticCredentials [(''alice'', ''s3cret'')])]"
proof -
  have a: "AuthMethods zeroConfig = [] \<and> Credentials zeroConfig = None"
    by (simp add: zeroConfig_def)
  have b: "AuthMethods (zeroConfig\<lparr>Credentials := Some (StaticCredentials [(''alice'', ''s3cret'')])\<rparr>) = []
     \<and> Credentials (zeroConfig\<lparr>Credentials := Some (StaticCredentials [(''alice'', ''s3cret'')])\<rparr>)
         = Some (StaticCredentials [(''alice'', ''s3cret'')])"
    by (simp add: zeroConfig_def)
  from New_registers_an_authenticator [of GetCode_rfc1928 zeroConfig] a
    New_registers_an_authenticator [of GetCode_rfc1928
      "zeroConfig\<lparr>Credentials := Some (StaticCredentials [(''alice'', ''s3cret'')])\<rparr>"] b
  show ?thesis by simp
qed

text \<open>
  C7, as the claim states it, fails: a configuration without authenticators but with a
  credential store gets the username/password method, and the no-auth method is not
  registered.
\<close>

theorem no_auth_default_counterexample:
  "AuthMethods (zeroConfig\<lparr>Credentials := Some (StaticCredentials [(''alice'', ''s3cret'')])\<rparr>) = []
   \<and> authMethods (fst (New GetCode_rfc1928
         (zeroConfig\<lparr>Credentials := Some (StaticCredentials [(''alice'', ''s3cret'')])\<rparr>)))
        (GetCode_rfc1928 NoAuthAuthenticator) = None
   \<and> NoAuthAuthenticator \<notin> ran (authMethods (fst (New GetCode_rfc1928
         (zeroConfig\<lparr>Credentials := Some (StaticCredentials [(''alice'', ''s3cret'')])\<rparr>))))"
  by (simp add: New_def Let_def zeroConfig_def)

subsection \<open>The remote address of the request\<close>

text \<open>\<open>ServeConn\<close> hands the stamped request to the command handler; for a TCP peer the
  address stamped is what \<open>ParseAddr\<close> makes of the raw bytes of the peer's IP, and a
  string without \<open>.\<close>, \<open>:\<close> and \<open>%\<close> does not parse.\<close>

lemma stampRequest_tcp:
  "addrTCP remote = Some client \<Longrightarrow>
   stampRequest authContext remote request =
     request\<lparr>AuthContext := Some authContext,
             RemoteAddr := Some \<lparr>FQDN = [],
               IP = fst (ParseAddr (map (\<lambda>b. char_of (unat b)) (tcpIP client))),
               Port = tcpPort client\<rparr>\<rparr>"
  by (simp add: stampRequest_def)

lemma ServeConn_request_stamps:
  assumes "authenticate pkg s conn2 = (Inr authContext, conn3)"
    and "NewRequest pkg conn3 = (Inr request, conn4)"
  shows "ServeConn_request pkg s conn2 =
     (case handleRequest pkg s (stampRequest authContext (conn_RemoteAddr conn4) request) conn4 of
        (Some err, conn5) \<Rightarrow>
          (Some (Errorf ''failed to handle request: %v'' err),
           logEvent (LogErrorf ''socks: %v'' (Errorf ''failed to handle request: %v'' err)) conn5)
      | (None, conn5) \<Rightarrow> (None, conn5))"
  using assms by (simp add: ServeConn_request_def Let_def split: prod.splits option.splits)

lemma ParseAddr_scan_plain:
  "CHR ''.'' \<notin> set cs \<Longrightarrow> CHR '':'' \<notin> set cs \<Longrightarrow> CHR ''%'' \<notin> set cs \<Longrightarrow>
   ParseAddr_scan s cs = (AddrZero, Some (parseAddrError s ''unable to parse IP''))"
  by (induction cs) auto

lemma ParseAddr_plain:
  "CHR ''.'' \<notin> set s \<Longrightarrow> CHR '':'' \<notin> set s \<Longrightarrow> CHR ''%'' \<notin> set s \<Longrightarrow>
   ParseAddr s = (AddrZero, Some (parseAddrError s ''unable to parse IP''))"
  by (simp add: ParseAddr_def ParseAddr_scan_plain)

text \<open>
  C6 fails on the code. For the TCP peer 172.16.0.1:40000 the request is stamped with the
  authentication context and with the peer's port, but the bytes of the peer's IP (172, 16,
  0, 1, or the sixteen bytes of its IPv4-mapped form) are given to \<open>ParseAddr\<close> as if they
  were text; the parse fails, the error is dropped, and the IP stamped is the zero address,
  not 172.16.0.1 (which is what \<open>AddrFromSlice\<close> makes of the four bytes, and \<open>ParseAddr\<close>
  of the peer's printed address).
\<close>

theorem stamped_remote_ip_is_zero:
  "RemoteAddr (stampRequest \<lparr>Method = 0, Payload = []\<rparr>
       (conn_RemoteAddr (tcpConn ''172.16.0.1:40000'' [172, 16, 0, 1] 40000 []))
       \<lparr>Command = 1, AuthContext = None, RemoteAddr = None,
        DestAddr = \<lparr>FQDN = [], IP = AddrV4 0x5DB8D822, Port = 80\<rparr>\<rparr>)
     = Some \<lparr>FQDN = [], IP = AddrZero, Port = 40000\<rparr>
   \<and> RemoteAddr (stampRequest \<lparr>Method = 0, Payload = []\<rparr>
       (conn_RemoteAddr (tcpConn ''172.16.0.1:40000''
          [0, 0, 0, 0, 0, 0, 0, 0, 0, 0, 255, 255, 172, 16, 0, 1] 40000 []))
       \<lparr>Command = 1, AuthContext = None, RemoteAddr = None,
        DestAddr = \<lparr>FQDN = [], IP = AddrV4 0x5DB8D822, Port = 80\<rparr>\<rparr>)
     = Some \<lparr>FQDN = [], IP = AddrZero, Port = 40000\<rparr>
   \<and> AddrFromSlice [172, 16, 0, 1] = AddrV4 0xAC100001
   \<and> fst (ParseAddr ''172.16.0.1'') = AddrV4 0xAC100001
   \<and> AuthContext (stampRequest \<lparr>Method = 0, Payload = []\<rparr>
       (conn_RemoteAddr (tcpConn ''172.16.0.1:40000'' [172, 16, 0, 1] 40000 []))
       \<lparr>Command = 1, AuthContext = None, RemoteAddr = None,
        DestAddr = \<lparr>FQDN = [], IP = AddrV4 0x5DB8D822, Port = 80\<rparr>\<rparr>)
     = Some \<lparr>Method = 0, Payload = []\<rparr>"
  by (simp add: stampRequest_def AddrFromSlice_def eval_defs)

subsection \<open>Decoding failures and the reply\<close>

text \<open>Decoding a request only reads, and it fails with \<open>ErrUnrecognizedAddrType\<close> exactly
  on a request with version 5 whose address type is not 1, 3 or 4.\<close>

lemma only_reads_refl: "only_reads conn conn"
  by (simp add: only_reads_def)















subsection \<open>The prefix literals and the default allow-list\<close>

text \<open>\<open>MustParsePrefix\<close> does not panic on the two literals of the server, and yields the
  prefixes the range checks use.\<close>

lemma MustParsePrefix_classB: "MustParsePrefix ''172.16.0.0/12'' = Some classBCIDR"
  by (simp add: MustParsePrefix_def ParsePrefix_def eval_defs classBCIDR_def PrefixFrom_def Atoi_def)

lemma MustParsePrefix_cgnat: "MustParsePrefix ''100.64.0.0/10'' = Some cgnatCIDR"
  by (simp add: MustParsePrefix_def ParsePrefix_def eval_defs cgnatCIDR_def PrefixFrom_def Atoi_def)

text \<open>The allow-list of a new server is empty; \<open>SetIPWhitelist\<close> replaces it.\<close>

lemma New_isIPAllowed: "isIPAllowed (fst (New GetCode conf)) = whitelisted []"
  by (simp add: New_def Let_def fun_eq_iff)

lemma SetIPWhitelist_isIPAllowed: "isIPAllowed (SetIPWhitelist s allowedIPs) = whitelisted allowedIPs"
  by (simp add: SetIPWhitelist_def)

end
